theory Spec2Isabelle
  imports Complex_Main "HOL-Library.AList" "HOL-Library.Multiset"
begin

chapter \<open>The hydrophone viewer: tabbed control panel and project state\<close>

text \<open>
  A shallow embedding of the Python sources \<^verbatim>\<open>ui_tab_system.py\<close>, \<^verbatim>\<open>ui_tabs.py\<close>,
  \<^verbatim>\<open>ui_layout.py\<close> and \<^verbatim>\<open>state.py\<close>.  Mutation is explicit state passing, an exception
  is a value of \<open>exn\<close> returned beside the state that the call left behind, and the
  drawing calls of the plotting toolkit (\<^verbatim>\<open>plt.draw\<close>, colours, geometry) are left out.
\<close>

section \<open>Python values shared by all modules\<close>

datatype exn =
  TypeError | AttributeError | IndexError | KeyError | ValueError | NameError
  | OSError | PicklingError | UnpicklingError | EOFError | KeyboardInterrupt | SystemExit

text \<open>
  Python's exception classes form a tree under \<^verbatim>\<open>BaseException\<close>.  The clause
  \<^verbatim>\<open>except Exception\<close> handles the classes derived from \<^verbatim>\<open>Exception\<close>;
  \<^verbatim>\<open>KeyboardInterrupt\<close> and \<^verbatim>\<open>SystemExit\<close> derive from \<^verbatim>\<open>BaseException\<close> directly and
  pass through it.
\<close>

fun is_Exception :: "exn \<Rightarrow> bool" where
  "is_Exception KeyboardInterrupt = False"
| "is_Exception SystemExit = False"
| "is_Exception _ = True"

text \<open>
  A string holds one \<open>char\<close> for each character of the Python string, so that
  \<open>length\<close> is Python's \<^verbatim>\<open>len\<close> and \<open>take\<close> a slice from the front; this covers the
  characters up to U+00FF, among them all texts that the program itself writes but one.
  An f-string is kept as the sequence of its literal parts and formatted values:
  \<open>Dec n\<close> is \<^verbatim>\<open>{n}\<close> of an integer, \<open>Fixed d x\<close> is \<^verbatim>\<open>{x:.df}\<close>, and \<open>Arrow\<close> is the
  one character of the program's texts beyond U+00FF, the arrow U+2192.
\<close>

datatype piece = Lit string | Dec int | Fixed nat real | Arrow

type_synonym fstring = "piece list"

text \<open>
  Subscripting a list with an integer, \<^verbatim>\<open>xs[i]\<close>: positions \<open>0 .. len - 1\<close> read
  from the front, \<open>-len .. -1\<close> from the back, and every other integer raises.
\<close>

definition py_getitem :: "'a list \<Rightarrow> int \<Rightarrow> exn + 'a" where
  "py_getitem xs i =
     (if 0 \<le> i \<and> i < int (length xs) then Inr (xs ! nat i)
      else if i < 0 \<and> - int (length xs) \<le> i then Inr (xs ! nat (int (length xs) + i))
      else Inl IndexError)"

text \<open>\<^verbatim>\<open>int(x)\<close> of a finite float truncates towards zero.\<close>

definition py_int :: "real \<Rightarrow> int" where
  "py_int x = (if 0 \<le> x then \<lfloor>x\<rfloor> else \<lceil>x\<rceil>)"

section \<open>The attributes of module \<^verbatim>\<open>state\<close> that the tab code uses\<close>

text \<open>
  The tab classes read and write a handful of attributes of module \<^verbatim>\<open>state\<close>; this
  record holds them with their types.  (The functions of \<^verbatim>\<open>state.py\<close> itself are modelled
  further down, over all variables of the module.)  \<open>spec_click_line\<close> holds the x data
  of the clicked line, \<open>ax_fft\<close> the y limits of the FFT axes; \<open>None\<close> is Python's
  \<^verbatim>\<open>None\<close>.  An FFT frame is a list of amplitudes, one per frequency bin.  Amplitudes and
  frequencies are floats, idealised as reals: the model has neither rounding nor NaN.
  The limits of the FFT axis are Python integers, as the code sets them (0, 120 and
  steps of 10).
\<close>

record state =
  data_global :: "real list list option"
  freqs_global :: "real list option"
  time_labels_all :: "string list option"
  selected_range :: "(int \<times> int) option"
  spec_click_line :: "real list option"
  ax_fft :: "(int \<times> int) option"
  fft_ymin :: int
  fft_ymax :: int
  log_entries :: "fstring list"

text \<open>
  Modelled from the spec: \<^verbatim>\<open>utils.add_log_entry\<close> is not among the sources.  The glossary
  speaks of operations that are "logged only", and \<^verbatim>\<open>state.py\<close> declares
  \<^verbatim>\<open>log_entries\<close> as the list of log entries, so the helper appends its message there
  and touches nothing else.
\<close>

definition add_log_entry :: "fstring \<Rightarrow> state \<Rightarrow> state" where
  "add_log_entry msg st = st\<lparr>log_entries := log_entries st @ [msg]\<rparr>"

section \<open>\<^verbatim>\<open>ui_tabs.AnalysisTab\<close>: the FFT display range\<close>

text \<open>
  What the results box shows: the f-string of \<^verbatim>\<open>on_find_peaks\<close> lists one
  (frequency, amplitude) pair per line, in the order of the list.
\<close>

datatype results_display =
  No_measurements | Top_peaks "(real \<times> real) list" | No_peaks_found_above_threshold

text \<open>
  What the statistics box shows: the text that \<^verbatim>\<open>build\<close> puts there, the prompt, the
  statistics of a selection \<^verbatim>\<open>(start - end)\<close> or those of one frame.  The numbers
  inside the last two texts (mean, maximum, band energies, percentiles) are not kept;
  the operations that compute them are modelled as far as they can raise.
\<close>

datatype stats_display =
  No_statistics_available | Select_a_point_or_range
  | Selection_statistics int int | Point_statistics int

text \<open>
  \<open>range_text\<close> holds the two numbers of \<^verbatim>\<open>f"Range: {min:.1f} - {max:.1f}"\<close>; a text
  attribute is \<open>None\<close> until \<^verbatim>\<open>build\<close> has assigned it, and reading it before raises
  \<^verbatim>\<open>AttributeError\<close>.
\<close>

record analysis_tab =
  fft_min_val :: int
  fft_max_val :: int
  range_text :: "(int \<times> int) option"
  results_text :: "results_display option"
  stats_text :: "stats_display option"

definition AnalysisTab_init :: analysis_tab where
  "AnalysisTab_init =
     \<lparr>fft_min_val = 0, fft_max_val = 120, range_text = None, results_text = None,
      stats_text = None\<rparr>"

definition update_range_display :: "analysis_tab \<Rightarrow> analysis_tab" where
  "update_range_display t =
     (if range_text t \<noteq> None
      then t\<lparr>range_text := Some (fft_min_val t, fft_max_val t)\<rparr>
      else t)"

definition adjust_fft_min :: "int \<Rightarrow> analysis_tab \<times> state \<Rightarrow> analysis_tab \<times> state" where
  "adjust_fft_min delta = (\<lambda>(t, st).
     let old_min = fft_min_val t;
         new_min = max (old_min + delta) (- 20);
         new_min = min new_min (fft_max_val t - 10);
         t = t\<lparr>fft_min_val := new_min\<rparr>;
         st = (if ax_fft st \<noteq> None
               then st\<lparr>fft_ymin := new_min, ax_fft := Some (new_min, fft_ymax st)\<rparr>
               else st);
         t = update_range_display t
     in (t, add_log_entry [Lit ''Adjusted FFT minimum to '', Fixed 1 (of_int new_min)] st))"

definition adjust_fft_max :: "int \<Rightarrow> analysis_tab \<times> state \<Rightarrow> analysis_tab \<times> state" where
  "adjust_fft_max delta = (\<lambda>(t, st).
     let old_max = fft_max_val t;
         new_max = max (old_max + delta) (fft_min_val t + 10);
         t = t\<lparr>fft_max_val := new_max\<rparr>;
         st = (if ax_fft st \<noteq> None
               then st\<lparr>fft_ymax := new_max, ax_fft := Some (fft_ymin st, new_max)\<rparr>
               else st);
         t = update_range_display t
     in (t, add_log_entry [Lit ''Adjusted FFT maximum to '', Fixed 1 (of_int new_max)] st))"

definition on_reset_fft :: "analysis_tab \<times> state \<Rightarrow> analysis_tab \<times> state" where
  "on_reset_fft = (\<lambda>(t, st).
     let t = t\<lparr>fft_min_val := 0, fft_max_val := 120\<rparr>;
         st = (if ax_fft st \<noteq> None
               then st\<lparr>fft_ymin := fft_min_val t, fft_ymax := fft_max_val t,
                       ax_fft := Some (fft_min_val t, fft_max_val t)\<rparr>
               else st);
         t = update_range_display t
     in (t, add_log_entry [Lit ''Reset FFT range to defaults''] st))"

text \<open>A finite sequence of clicks on the range buttons.\<close>

datatype fft_call = Adjust_fft_min int | Adjust_fft_max int | On_reset_fft

fun fft_call_step :: "fft_call \<Rightarrow> analysis_tab \<times> state \<Rightarrow> analysis_tab \<times> state" where
  "fft_call_step (Adjust_fft_min d) s = adjust_fft_min d s"
| "fft_call_step (Adjust_fft_max d) s = adjust_fft_max d s"
| "fft_call_step On_reset_fft s = on_reset_fft s"

fun fft_calls :: "fft_call list \<Rightarrow> analysis_tab \<times> state \<Rightarrow> analysis_tab \<times> state" where
  "fft_calls [] s = s"
| "fft_calls (c # cs) s = fft_calls cs (fft_call_step c s)"

definition fft_gap :: "analysis_tab \<Rightarrow> bool" where
  "fft_gap t = (- 20 \<le> fft_min_val t \<and> fft_min_val t + 10 \<le> fft_max_val t)"

subsection \<open>\<^verbatim>\<open>on_find_peaks\<close>\<close>

text \<open>
  Indexing a numpy array with an array of positions, \<^verbatim>\<open>xs[idx]\<close>: a position
  outside the array raises.
\<close>

definition np_take :: "'a list \<Rightarrow> nat list \<Rightarrow> exn + 'a list" where
  "np_take xs idx =
     (if list_all (\<lambda>i. i < length xs) idx then Inr (map (\<lambda>i. xs ! i) idx)
      else Inl IndexError)"

text \<open>
  \<^verbatim>\<open>scipy.signal.find_peaks\<close> and \<^verbatim>\<open>numpy.argsort\<close> are library functions: the handler
  takes them as the parameters \<open>find_peaks\<close> (frame, height, distance) and
  \<open>argsort\<close>.  \<open>x0\<close> is \<^verbatim>\<open>spec_click_line.get_xdata()[0]\<close>.
\<close>

definition on_find_peaks ::
  "(real list \<Rightarrow> real \<Rightarrow> nat \<Rightarrow> nat list) \<Rightarrow> (real list \<Rightarrow> nat list) \<Rightarrow>
     analysis_tab \<times> state \<Rightarrow> exn option \<times> analysis_tab \<times> state" where
  "on_find_peaks find_peaks argsort = (\<lambda>(t, st).
     case (freqs_global st, data_global st) of
       (Some freqs, Some data) \<Rightarrow>
         (case spec_click_line st of
            None \<Rightarrow> (None, t, st)
          | Some xdata \<Rightarrow>
              (case py_getitem xdata 0 of
                 Inl e \<Rightarrow> (Some e, t, st)
               | Inr x0 \<Rightarrow>
                   let idx = py_int x0 in
                   if 0 \<le> idx \<and> idx < int (length data) then
                     let fft_data = data ! nat idx;
                         peaks = find_peaks fft_data (of_int (fft_min_val t + 10)) 5
                     in if length peaks > 0 then
                          (case np_take freqs peaks of
                             Inl e \<Rightarrow> (Some e, t, st)
                           | Inr peak_freqs \<Rightarrow>
                           (case np_take fft_data peaks of
                             Inl e \<Rightarrow> (Some e, t, st)
                           | Inr peak_amps \<Rightarrow>
                               let sort_idx = rev (argsort peak_amps) in
                               (case np_take peak_freqs sort_idx of
                                  Inl e \<Rightarrow> (Some e, t, st)
                                | Inr peak_freqs \<Rightarrow>
                                (case np_take peak_amps sort_idx of
                                  Inl e \<Rightarrow> (Some e, t, st)
                                | Inr peak_amps \<Rightarrow>
                                    let peak_amps = (if length peak_freqs > 5
                                                     then take 5 peak_amps else peak_amps);
                                        peak_freqs = (if length peak_freqs > 5
                                                      then take 5 peak_freqs else peak_freqs)
                                    in (case results_text t of
                                          None \<Rightarrow> (Some AttributeError, t, st)
                                        | Some _ \<Rightarrow>
                                            (None,
                                             t\<lparr>results_text :=
                                                 Some (Top_peaks (zip peak_freqs peak_amps))\<rparr>,
                                             add_log_entry
                                               [Lit ''Found '', Dec (int (length peak_freqs)),
                                                Lit '' peaks in FFT data''] st))))))
                        else
                          (case results_text t of
                             None \<Rightarrow> (Some AttributeError, t, st)
                           | Some _ \<Rightarrow>
                               (None, t\<lparr>results_text := Some No_peaks_found_above_threshold\<rparr>,
                                add_log_entry [Lit ''No peaks found in FFT data''] st))
                   else (None, t, st)))
     | _ \<Rightarrow> (None, t, st))"

text \<open>
  What the handler relies on from the two library functions: every index that
  \<^verbatim>\<open>find_peaks\<close> returns lies in the frame and reaches the height, and \<^verbatim>\<open>argsort\<close>
  returns the positions of its argument in ascending order of value.
\<close>

definition find_peaks_contract :: "(real list \<Rightarrow> real \<Rightarrow> nat \<Rightarrow> nat list) \<Rightarrow> bool" where
  "find_peaks_contract find_peaks =
     (\<forall>x h d. \<forall>i \<in> set (find_peaks x h d). i < length x \<and> h \<le> x ! i)"

definition argsort_contract :: "(real list \<Rightarrow> nat list) \<Rightarrow> bool" where
  "argsort_contract argsort =
     (\<forall>xs. mset (argsort xs) = mset [0..<length xs] \<and> sorted (map (\<lambda>i. xs ! i) (argsort xs)))"

text \<open>
  Two concrete functions that meet the contracts, for running the handler on an
  example.  \<open>insertion_argsort\<close> is an argsort by stable insertion.
  \<open>signal_find_peaks\<close> follows \<^verbatim>\<open>scipy.signal.find_peaks(x, height=h, distance=d)\<close>
  step by step:
  \<^item> the local maxima: a sample higher than the one before it starts a flat top, which
    runs up to \<open>plateau_end\<close>, the first later sample that differs or is the last of
    the frame; if that sample is lower, the middle of the flat top is a peak (so the
    first and the last sample are never peaks);
  \<^item> of these, the peaks that reach the height;
  \<^item> of these, the peaks that the distance rule keeps: the peaks are visited from the
    highest down, and each visited peak that is still kept removes every other peak
    less than \<open>d\<close> samples away.
\<close>

definition insertion_argsort :: "real list \<Rightarrow> nat list" where
  "insertion_argsort xs = sort_key (\<lambda>i. xs ! i) [0..<length xs]"

definition plateau_end :: "real list \<Rightarrow> nat \<Rightarrow> nat" where
  "plateau_end x i = i + 1 + length (takeWhile (\<lambda>k. x ! k = x ! i) [i + 1..<length x - 1])"

definition local_maxima_1d :: "real list \<Rightarrow> nat list" where
  "local_maxima_1d x =
     map (\<lambda>i. (i + (plateau_end x i - 1)) div 2)
       (filter (\<lambda>i. x ! (i - 1) < x ! i \<and> x ! plateau_end x i < x ! i) [1..<length x - 1])"

definition select_by_peak_distance :: "nat list \<Rightarrow> real list \<Rightarrow> nat \<Rightarrow> bool list" where
  "select_by_peak_distance peaks priority d =
     fold (\<lambda>j keep.
             if keep ! j
             then map (\<lambda>k. keep ! k \<and>
                            (k = j \<or> \<not> (peaks ! k < peaks ! j + d \<and> peaks ! j < peaks ! k + d)))
                    [0..<length peaks]
             else keep)
       (rev (insertion_argsort priority)) (replicate (length peaks) True)"

definition signal_find_peaks :: "real list \<Rightarrow> real \<Rightarrow> nat \<Rightarrow> nat list" where
  "signal_find_peaks x h d =
     (let peaks = filter (\<lambda>m. h \<le> x ! m) (local_maxima_1d x);
          keep = select_by_peak_distance peaks (map (\<lambda>m. x ! m) peaks) d
      in map (\<lambda>k. peaks ! k) (filter (\<lambda>k. keep ! k) [0..<length peaks]))"

section \<open>\<^verbatim>\<open>ui_tabs.FilterTab\<close>: noise profiles\<close>

text \<open>
  The profile dictionary, one field per key.  \<open>fstring_empty\<close> is the truth value
  \<^verbatim>\<open>not s\<close> of a string kept as an f-string: a formatted number is never empty.
\<close>

record noise_profile =
  key_name :: fstring
  key_range :: "int \<times> int"
  key_data :: "real list"
  key_time :: fstring
  key_metadata :: "(string \<times> string) list"

definition fstring_empty :: "fstring \<Rightarrow> bool" where
  "fstring_empty s = list_all (\<lambda>p. p = Lit []) s"

text \<open>
  \<open>name_input\<close> is the text of the \<^verbatim>\<open>TextBox\<close>, \<open>status_light\<close> the colour of the
  circle; the three \<^verbatim>\<open>Text\<close> attributes are \<open>None\<close> until \<^verbatim>\<open>build\<close> has assigned them.
\<close>

record filter_tab =
  noise_profiles :: "noise_profile list"
  active_profile :: "noise_profile option"
  filter_intensity :: real
  name_input :: string
  status_light :: string
  status_text :: "string option"
  profiles_text :: "fstring option"
  metadata_text :: "fstring option"

definition FilterTab_init :: filter_tab where
  "FilterTab_init =
     \<lparr>noise_profiles = [], active_profile = None, filter_intensity = 0.5,
      name_input = ''Background Profile'', status_light = ''gray'', status_text = None,
      profiles_text = None, metadata_text = None\<rparr>"

text \<open>
  \<^verbatim>\<open>np.vstack\<close> of a list of frames raises on an empty list and on frames of different
  lengths; \<^verbatim>\<open>np.mean(m, axis=0)\<close> averages each column of the stacked frames.  Floats are
  idealised as reals.
\<close>

definition np_vstack :: "real list list \<Rightarrow> exn + real list list" where
  "np_vstack rows =
     (case rows of
        [] \<Rightarrow> Inl ValueError
      | r # rs \<Rightarrow> if list_all (\<lambda>r'. length r' = length r) rs then Inr rows else Inl ValueError)"

definition np_mean_axis0 :: "real list list \<Rightarrow> real list" where
  "np_mean_axis0 m =
     map (\<lambda>j. sum_list (map (\<lambda>r. r ! j) m) / real (length m)) [0..<length (hd m)]"

text \<open>The loop \<^verbatim>\<open>for i in range(start, end + 1): profile_data.append(data[i])\<close>.\<close>

fun collect_frames :: "'a list \<Rightarrow> int list \<Rightarrow> exn + 'a list" where
  "collect_frames data [] = Inr []"
| "collect_frames data (i # is) =
     (case py_getitem data i of
        Inl e \<Rightarrow> Inl e
      | Inr x \<Rightarrow> (case collect_frames data is of Inl e \<Rightarrow> Inl e | Inr xs \<Rightarrow> Inr (x # xs)))"

text \<open>
  \<^verbatim>\<open>labels[i] if i < len(labels) else "N/A"\<close>, and the f-string
  \<^verbatim>\<open>f"{start_time} - {end_time}"\<close> built from two of them.
\<close>

definition label_or_na :: "string list \<Rightarrow> int \<Rightarrow> exn + string" where
  "label_or_na labels i = (if i < int (length labels) then py_getitem labels i else Inr ''N/A'')"

definition time_span :: "string list \<Rightarrow> int \<Rightarrow> int \<Rightarrow> exn + fstring" where
  "time_span labels start end =
     (case label_or_na labels start of
        Inl e \<Rightarrow> Inl e
      | Inr start_time \<Rightarrow>
          (case label_or_na labels end of
             Inl e \<Rightarrow> Inl e
           | Inr end_time \<Rightarrow> Inr [Lit start_time, Lit '' - '', Lit end_time]))"

text \<open>
  \<^verbatim>\<open>update_profiles_display\<close>.  The marker of each line is decided by
  \<^verbatim>\<open>profile == self.active_profile\<close>, Python's equality of two dictionaries that hold
  numpy arrays: it is true of one and the same object and may raise when two distinct
  arrays are compared.  The comparison is the parameter \<open>dict_eq\<close>; against \<^verbatim>\<open>None\<close>
  the answer is \<^verbatim>\<open>False\<close>.  The marker is the arrow U+2192 and a blank, or two blanks;
  \<open>CHR 10\<close> is the newline.
\<close>

definition marker_of :: "bool \<Rightarrow> fstring" where
  "marker_of marked = (if marked then [Arrow, Lit '' ''] else [Lit ''  ''])"

fun profile_lines ::
  "(noise_profile \<Rightarrow> noise_profile \<Rightarrow> exn + bool) \<Rightarrow> noise_profile option \<Rightarrow>
     nat \<Rightarrow> noise_profile list \<Rightarrow> exn + fstring" where
  "profile_lines dict_eq active i [] = Inr []"
| "profile_lines dict_eq active i (p # ps) =
     (case (case active of None \<Rightarrow> Inr False | Some a \<Rightarrow> dict_eq p a) of
        Inl e \<Rightarrow> Inl e
      | Inr is_active \<Rightarrow>
          let marker = marker_of is_active;
              line = marker @ [Dec (int i + 1), Lit ''. ''] @ key_name p @ [Lit [CHR 10]]
                     @ [Lit ''    Range: '', Dec (fst (key_range p)), Lit '' - '',
                        Dec (snd (key_range p)), Lit [CHR 10]]
                     @ (if \<not> fstring_empty (key_time p)
                        then [Lit ''    Time: ''] @ key_time p @ [Lit [CHR 10]] else [])
                     @ [Lit [CHR 10]]
          in (case profile_lines dict_eq active (Suc i) ps of
                Inl e \<Rightarrow> Inl e
              | Inr rest \<Rightarrow> Inr (line @ rest)))"

definition update_profiles_display ::
  "(noise_profile \<Rightarrow> noise_profile \<Rightarrow> exn + bool) \<Rightarrow> filter_tab \<Rightarrow> exn option \<times> filter_tab" where
  "update_profiles_display dict_eq t =
     (if noise_profiles t = [] then
        (case profiles_text t of
           None \<Rightarrow> (Some AttributeError, t)
         | Some _ \<Rightarrow> (None, t\<lparr>profiles_text := Some [Lit ''No profiles available'']\<rparr>))
      else
        (case profile_lines dict_eq (active_profile t) 0 (noise_profiles t) of
           Inl e \<Rightarrow> (Some e, t)
         | Inr lines \<Rightarrow>
             (case profiles_text t of
                None \<Rightarrow> (Some AttributeError, t)
              | Some _ \<Rightarrow>
                  (None, t\<lparr>profiles_text :=
                             Some ([Lit (''Available Profiles:'' @ [CHR 10, CHR 10])] @ lines)\<rparr>))))"

definition on_save_profile ::
  "(noise_profile \<Rightarrow> noise_profile \<Rightarrow> exn + bool) \<Rightarrow> filter_tab \<times> state \<Rightarrow>
     exn option \<times> filter_tab \<times> state" where
  "on_save_profile dict_eq = (\<lambda>(t, st).
     case selected_range st of
       None \<Rightarrow> (None, t, add_log_entry [Lit ''Cannot save profile - no selection''] st)
     | Some (start, end) \<Rightarrow>
         let profile_name =
               (if name_input t = [] then
                  [Lit ''Background Profile '', Dec (int (length (noise_profiles t)) + 1)]
                else [Lit (name_input t)])
         in (case data_global st of
               None \<Rightarrow>
                 (None, t, add_log_entry [Lit ''Cannot save profile - invalid data range''] st)
             | Some data \<Rightarrow>
                 if start < int (length data) \<and> end < int (length data) then
                   (case collect_frames data [start..end] of
                      Inl e \<Rightarrow> (Some e, t, st)
                    | Inr profile_data \<Rightarrow>
                    (case np_vstack profile_data of
                      Inl e \<Rightarrow> (Some e, t, st)
                    | Inr profile_data \<Rightarrow>
                        let mean_profile = np_mean_axis0 profile_data;
                            profile = \<lparr>key_name = profile_name,
                                       key_range = (start, end),
                                       key_data = mean_profile,
                                       key_time = [Lit []],
                                       key_metadata = []\<rparr>
                        in (case (case time_labels_all st of
                                    None \<Rightarrow> Inr profile
                                  | Some labels \<Rightarrow>
                                      (case time_span labels start end of
                                         Inl e \<Rightarrow> Inl e
                                       | Inr time_info \<Rightarrow> Inr (profile\<lparr>key_time := time_info\<rparr>))) of
                              Inl e \<Rightarrow> (Some e, t, st)
                            | Inr profile \<Rightarrow>
                                let t = t\<lparr>noise_profiles := noise_profiles t @ [profile]\<rparr>
                                in (case update_profiles_display dict_eq t of
                                      (Some e, t) \<Rightarrow> (Some e, t, st)
                                    | (None, t) \<Rightarrow>
                                        (None, t\<lparr>name_input := []\<rparr>,
                                         add_log_entry
                                           ([Lit (''Saved background profile '' @ [CHR 0x27])]
                                            @ profile_name @ [Lit [CHR 0x27]]) st)))))
                 else
                   (None, t,
                    add_log_entry [Lit ''Cannot save profile - invalid data range''] st)))"

definition on_intensity_change :: "real \<Rightarrow> filter_tab \<times> state \<Rightarrow> filter_tab \<times> state" where
  "on_intensity_change val = (\<lambda>(t, st).
     (t\<lparr>filter_intensity := val\<rparr>,
      add_log_entry [Lit ''Filter intensity set to '', Fixed 2 val] st))"

text \<open>
  \<^verbatim>\<open>if self.active_profile:\<close> is the truth value of \<^verbatim>\<open>None\<close> or of a profile dictionary,
  which has five keys and so is true.
\<close>

definition on_toggle_filter :: "filter_tab \<times> state \<Rightarrow> exn option \<times> filter_tab \<times> state" where
  "on_toggle_filter = (\<lambda>(t, st).
     if active_profile t \<noteq> None then
       (case status_text t of
          None \<Rightarrow> (Some AttributeError, t, st)
        | Some shown \<Rightarrow>
            if shown = ''ON'' then
              (None, t\<lparr>status_light := ''orange'', status_text := Some ''READY''\<rparr>,
               add_log_entry [Lit ''Filtering turned off''] st)
            else
              (None, t\<lparr>status_light := ''green'', status_text := Some ''ON''\<rparr>,
               add_log_entry [Lit ''Filtering turned on (intensity: '',
                              Fixed 2 (filter_intensity t), Lit '')''] st))
     else (None, t, add_log_entry [Lit ''Cannot apply filter - no profile loaded''] st))"

section \<open>Example objects\<close>

text \<open>
  The two tabs as \<^verbatim>\<open>build\<close> leaves them (the texts that it puts into the \<^verbatim>\<open>Text\<close>
  objects), and a module state with three FFT frames of seven bins.
\<close>

definition AnalysisTab_built :: analysis_tab where
  "AnalysisTab_built =
     AnalysisTab_init\<lparr>range_text := Some (0, 120), results_text := Some No_measurements,
                       stats_text := Some No_statistics_available\<rparr>"

definition FilterTab_built :: filter_tab where
  "FilterTab_built =
     FilterTab_init\<lparr>status_text := Some ''OFF'',
                     profiles_text := Some [Lit ''No profiles available''],
                     metadata_text := Some [Lit ''Selection: None'']\<rparr>"

definition example_state :: state where
  "example_state =
     \<lparr>data_global = Some [[0, 30, 5, 40, 10, 20, 3], [2, 10, 7, 0, 10, 0, 1], [5, 7, 5, 7, 5, 7, 5]],
      freqs_global = Some [0, 100, 200, 300, 400, 500, 600],
      time_labels_all = Some [''12:00:00'', ''12:00:01'', ''12:00:02''],
      selected_range = Some (0, 1),
      spec_click_line = Some [7 / 10],
      ax_fft = Some (0, 120), fft_ymin = 0, fft_ymax = 120, log_entries = []\<rparr>"

text \<open>
  A module state with one frame of 36 bins, 100 Hz apart: peaks of 50, 20, 50, 30
  (a flat top of two bins), 60 and 15 dB at bins 3, 9, 15, 21, 27 and 33, a peak of
  12 dB at bin 5, two bins from a higher one, and a peak of 5 dB at bin 12.
\<close>

definition six_peak_frame :: "real list" where
  "six_peak_frame =
     [0, 0, 0, 50, 0, 12, 0, 0, 0, 20, 0, 0, 5, 0, 0, 50, 0, 0,
      0, 0, 0, 30, 30, 0, 0, 0, 0, 60, 0, 0, 0, 0, 0, 15, 0, 0]"

definition six_peak_state :: state where
  "six_peak_state =
     \<lparr>data_global = Some [six_peak_frame],
      freqs_global = Some (map (\<lambda>i. 100 * real i) [0..<36]),
      time_labels_all = Some [''12:00:00''],
      selected_range = None,
      spec_click_line = Some [2 / 5],
      ax_fft = Some (0, 120), fft_ymin = 0, fft_ymax = 120, log_entries = []\<rparr>"

definition example_profile :: noise_profile where
  "example_profile =
     \<lparr>key_name = [Lit ''Pump''], key_range = (2, 2), key_data = [5, 7, 5, 7, 5, 7, 5],
      key_time = [Lit ''12:00:02'', Lit '' - '', Lit ''12:00:02''], key_metadata = []\<rparr>"

section \<open>\<^verbatim>\<open>ui_tabs.AnnotationsTab\<close>: annotations\<close>

text \<open>
  The annotation dictionary, one field per key; the key \<^verbatim>\<open>'time_range'\<close> is present only
  when the time labels were looked up, so its field is an option.
\<close>

record annotation =
  ann_id :: int
  ann_range :: "int \<times> int"
  ann_classification :: string
  ann_comment :: string
  ann_time_created :: string
  ann_color :: string
  ann_time_range :: "fstring option"

record annotations_tab =
  annotations :: "annotation list"
  current_annotation :: "annotation option"
  annotations_text :: "fstring option"
  selection_text :: "fstring option"

definition AnnotationsTab_init :: annotations_tab where
  "AnnotationsTab_init =
     \<lparr>annotations = [], current_annotation = None, annotations_text = None,
      selection_text = None\<rparr>"

text \<open>The lines of one annotation in \<^verbatim>\<open>update_annotations_display\<close>.\<close>

definition annotation_lines :: "annotation option \<Rightarrow> annotation \<Rightarrow> fstring" where
  "annotation_lines current a =
     (let marker = marker_of (Some a = current) in
      marker @ [Dec (ann_id a), Lit ''. Range: '', Dec (fst (ann_range a)), Lit ''-'',
                Dec (snd (ann_range a)), Lit [CHR 10]]
      @ [Lit ''    Type: '', Lit (ann_classification a), Lit [CHR 10]]
      @ (case ann_time_range a of
           None \<Rightarrow> []
         | Some tr \<Rightarrow> [Lit ''    Time: ''] @ tr @ [Lit [CHR 10]])
      @ (if ann_comment a \<noteq> [] then
           let comment = (if length (ann_comment a) > 30
                          then take 27 (ann_comment a) @ ''...'' else ann_comment a)
           in [Lit ''    Comment: '', Lit comment, Lit [CHR 10]]
         else [])
      @ [Lit [CHR 10]])"

definition update_annotations_display :: "annotations_tab \<Rightarrow> exn option \<times> annotations_tab" where
  "update_annotations_display t =
     (if annotations t = [] then
        (case annotations_text t of
           None \<Rightarrow> (Some AttributeError, t)
         | Some _ \<Rightarrow> (None, t\<lparr>annotations_text := Some [Lit ''No annotations'']\<rparr>))
      else
        (let annotations_str = concat (map (annotation_lines (current_annotation t)) (annotations t))
         in case annotations_text t of
              None \<Rightarrow> (Some AttributeError, t)
            | Some _ \<Rightarrow> (None, t\<lparr>annotations_text := Some annotations_str\<rparr>)))"

definition highlight_annotation :: "annotation \<Rightarrow> annotations_tab \<Rightarrow> exn option \<times> annotations_tab" where
  "highlight_annotation a t =
     (let t = t\<lparr>current_annotation := Some a\<rparr>;
          shown = [Lit ''Selection: '', Dec (fst (ann_range a)), Lit ''-'',
                   Dec (snd (ann_range a)), Lit [CHR 10], Lit ''Type: '',
                   Lit (ann_classification a)]
      in case selection_text t of
           None \<Rightarrow> (Some AttributeError, t)
         | Some _ \<Rightarrow> (None, t\<lparr>selection_text := Some shown\<rparr>))"

text \<open>
  \<open>now\<close> is the string that \<^verbatim>\<open>time.strftime("%Y-%m-%d %H:%M:%S")\<close> returns;
  \<^verbatim>\<open>UIColors.ACCENT_YELLOW\<close> is \<^verbatim>\<open>'#DCDCAA'\<close>.
\<close>

definition on_add_annotation ::
  "string \<Rightarrow> annotations_tab \<times> state \<Rightarrow> exn option \<times> annotations_tab \<times> state" where
  "on_add_annotation now = (\<lambda>(t, st).
     case selected_range st of
       None \<Rightarrow> (None, t, add_log_entry [Lit ''Cannot add annotation - no selection''] st)
     | Some (start, end) \<Rightarrow>
         let a = \<lparr>ann_id = int (length (annotations t)) + 1,
                  ann_range = (start, end),
                  ann_classification = ''General'',
                  ann_comment = [],
                  ann_time_created = now,
                  ann_color = ''#DCDCAA'',
                  ann_time_range = None\<rparr>
         in (case (case time_labels_all st of
                     None \<Rightarrow> Inr a
                   | Some labels \<Rightarrow>
                       if start < int (length labels) \<and> end < int (length labels) then
                         (case py_getitem labels start of
                            Inl e \<Rightarrow> Inl e
                          | Inr start_time \<Rightarrow>
                              (case py_getitem labels end of
                                 Inl e \<Rightarrow> Inl e
                               | Inr end_time \<Rightarrow>
                                   Inr (a\<lparr>ann_time_range :=
                                            Some [Lit start_time, Lit '' - '', Lit end_time]\<rparr>)))
                       else Inr a) of
               Inl e \<Rightarrow> (Some e, t, st)
             | Inr a \<Rightarrow>
                 let t = t\<lparr>annotations := annotations t @ [a]\<rparr>
                 in (case update_annotations_display t of
                       (Some e, t) \<Rightarrow> (Some e, t, st)
                     | (None, t) \<Rightarrow>
                         (case highlight_annotation a t of
                            (Some e, t) \<Rightarrow> (Some e, t, st)
                          | (None, t) \<Rightarrow>
                              (None, t,
                               add_log_entry [Lit ''Added annotation at range '', Dec start,
                                              Lit ''-'', Dec end] st)))))"

definition AnnotationsTab_built :: annotations_tab where
  "AnnotationsTab_built =
     AnnotationsTab_init\<lparr>annotations_text := Some [Lit ''No annotations''],
                          selection_text := Some [Lit ''No selection'']\<rparr>"

section \<open>\<^verbatim>\<open>ui_tabs\<close>: the \<^verbatim>\<open>on_show\<close> overrides\<close>

text \<open>
  Each of the four classes overrides \<^verbatim>\<open>on_show\<close> to refresh its \<^verbatim>\<open>Text\<close> objects from
  module \<^verbatim>\<open>state\<close>.  Every override can raise: on a text attribute that \<^verbatim>\<open>build\<close>
  never assigned, and in the list, dictionary and numpy operations on the way.

  \<^verbatim>\<open>ExportTab\<close> has one attribute of its own, \<^verbatim>\<open>selection_text\<close>, here
  \<open>export_selection_text\<close>.
\<close>

record export_tab =
  export_selection_text :: "fstring option"

definition ExportTab_init :: export_tab where
  "ExportTab_init = \<lparr>export_selection_text = None\<rparr>"

definition ExportTab_built :: export_tab where
  "ExportTab_built = \<lparr>export_selection_text = Some [Lit ''No audio selected for export'']\<rparr>"

definition ExportTab_on_show :: "state \<Rightarrow> export_tab \<Rightarrow> exn option \<times> export_tab" where
  "ExportTab_on_show st t =
     (let shown = (case selected_range st of
                     Some (start, end) \<Rightarrow>
                       [Lit ''Selected audio: '', Dec start, Lit ''-'', Dec end, Lit [CHR 10],
                        Lit ''Duration: '', Dec (end - start), Lit '' seconds'']
                   | None \<Rightarrow> [Lit ''No audio selected for export''])
      in case export_selection_text t of
           None \<Rightarrow> (Some AttributeError, t)
         | Some _ \<Rightarrow> (None, t\<lparr>export_selection_text := Some shown\<rparr>))"

definition AnnotationsTab_on_show ::
  "state \<Rightarrow> annotations_tab \<Rightarrow> exn option \<times> annotations_tab" where
  "AnnotationsTab_on_show st t =
     (case update_annotations_display t of
        (Some e, t) \<Rightarrow> (Some e, t)
      | (None, t) \<Rightarrow>
          let shown = (case selected_range st of
                         Some (start, end) \<Rightarrow> [Lit ''Selection: '', Dec start, Lit ''-'', Dec end]
                       | None \<Rightarrow> [Lit ''No selection''])
          in (case selection_text t of
                None \<Rightarrow> (Some AttributeError, t)
              | Some _ \<Rightarrow> (None, t\<lparr>selection_text := Some shown\<rparr>)))"

text \<open>
  \<^verbatim>\<open>FilterTab.on_show\<close> redraws the list of profiles, which compares every profile with
  the active one (\<open>dict_eq\<close>), and then looks the two ends of the selection up in the
  time labels: \<open>label_or_na\<close> checks the index against the length only, so an index
  below \<open>- len\<close> raises \<^verbatim>\<open>IndexError\<close>.
\<close>

definition set_metadata_text :: "fstring \<Rightarrow> filter_tab \<Rightarrow> exn option \<times> filter_tab" where
  "set_metadata_text shown t =
     (case metadata_text t of
        None \<Rightarrow> (Some AttributeError, t)
      | Some _ \<Rightarrow> (None, t\<lparr>metadata_text := Some shown\<rparr>))"

definition FilterTab_on_show ::
  "(noise_profile \<Rightarrow> noise_profile \<Rightarrow> exn + bool) \<Rightarrow> state \<Rightarrow> filter_tab \<Rightarrow>
     exn option \<times> filter_tab" where
  "FilterTab_on_show dict_eq st t =
     (case update_profiles_display dict_eq t of
        (Some e, t) \<Rightarrow> (Some e, t)
      | (None, t) \<Rightarrow>
          (case selected_range st of
             Some (start, end) \<Rightarrow>
               (case (case time_labels_all st of
                        None \<Rightarrow> Inr []
                      | Some labels \<Rightarrow>
                          (case time_span labels start end of
                             Inl e \<Rightarrow> Inl e
                           | Inr time_info \<Rightarrow> Inr ([Lit ''Time: ''] @ time_info @ [Lit [CHR 10]]))) of
                  Inl e \<Rightarrow> (Some e, t)
                | Inr time_line \<Rightarrow>
                    set_metadata_text
                      ([Lit ''Selection: '', Dec start, Lit '' - '', Dec end, Lit [CHR 10]]
                       @ time_line) t)
           | None \<Rightarrow>
               set_metadata_text
                 [Lit (''Selection: None'' @ [CHR 10] @ ''Select a region in the spectrogram first'')]
                 t))"

text \<open>
  \<^verbatim>\<open>AnalysisTab.on_show\<close> copies the FFT limits of module \<^verbatim>\<open>state\<close> and calls
  \<^verbatim>\<open>update_statistics\<close>.  There \<^verbatim>\<open>np.vstack\<close> raises on frames of different lengths,
  \<^verbatim>\<open>np.max\<close> on an array without elements, and \<^verbatim>\<open>state.freqs_global[idx]\<close> on a bin
  that has no frequency; \<^verbatim>\<open>np.mean\<close>, \<^verbatim>\<open>np.sum\<close> and \<^verbatim>\<open>np.percentile\<close> return.  The
  three strongest bands are the last three of \<^verbatim>\<open>np.argsort\<close>, reversed; \<^verbatim>\<open>np.argmax\<close> is
  the first position of the maximum.  A selection that covers no frame, and a clicked
  position outside the data, leave the text as it is.
\<close>

definition np_sum_axis0 :: "real list list \<Rightarrow> real list" where
  "np_sum_axis0 m = map (\<lambda>j. sum_list (map (\<lambda>r. r ! j) m)) [0..<length (hd m)]"

definition np_argmax :: "real list \<Rightarrow> nat" where
  "np_argmax xs = length (takeWhile (\<lambda>x. x < fold max xs (hd xs)) xs)"

definition set_stats_text :: "stats_display \<Rightarrow> analysis_tab \<Rightarrow> exn option \<times> analysis_tab" where
  "set_stats_text shown t =
     (case stats_text t of
        None \<Rightarrow> (Some AttributeError, t)
      | Some _ \<Rightarrow> (None, t\<lparr>stats_text := Some shown\<rparr>))"

definition update_statistics ::
  "(real list \<Rightarrow> nat list) \<Rightarrow> state \<Rightarrow> analysis_tab \<Rightarrow> exn option \<times> analysis_tab" where
  "update_statistics argsort st t =
     (case (freqs_global st, data_global st) of
        (Some freqs, Some data) \<Rightarrow>
          (case selected_range st of
             Some (start, end) \<Rightarrow>
               let fft_data = map (\<lambda>i. data ! nat i)
                                (filter (\<lambda>i. 0 \<le> i \<and> i < int (length data)) [start..end])
               in if fft_data \<noteq> [] then
                    (case np_vstack fft_data of
                       Inl e \<Rightarrow> (Some e, t)
                     | Inr fft_data \<Rightarrow>
                         if concat fft_data = [] then (Some ValueError, t)
                         else
                           let band_energy = np_sum_axis0 fft_data;
                               band_idx = take 3 (rev (argsort band_energy))
                           in if list_all (\<lambda>idx. idx < length freqs) band_idx
                              then set_stats_text (Selection_statistics start end) t
                              else (Some IndexError, t))
                  else (None, t)
           | None \<Rightarrow>
               (case spec_click_line st of
                  Some xdata \<Rightarrow>
                    (case py_getitem xdata 0 of
                       Inl e \<Rightarrow> (Some e, t)
                     | Inr x0 \<Rightarrow>
                         let idx = py_int x0 in
                         if 0 \<le> idx \<and> idx < int (length data) then
                           let fft_data = data ! nat idx in
                           if fft_data = [] then (Some ValueError, t)
                           else if np_argmax fft_data < length freqs
                           then set_stats_text (Point_statistics idx) t
                           else (Some IndexError, t)
                         else (None, t))
                | None \<Rightarrow> set_stats_text Select_a_point_or_range t))
      | _ \<Rightarrow> (None, t))"

definition AnalysisTab_on_show ::
  "(real list \<Rightarrow> nat list) \<Rightarrow> state \<Rightarrow> analysis_tab \<Rightarrow> exn option \<times> analysis_tab" where
  "AnalysisTab_on_show argsort st t =
     update_statistics argsort st
       (update_range_display (t\<lparr>fft_min_val := fft_ymin st, fft_max_val := fft_ymax st\<rparr>))"

section \<open>\<^verbatim>\<open>ui_tab_system\<close>: tabs and the tab manager\<close>

subsection \<open>Tab objects\<close>

text \<open>
  A tab object as the tab manager sees it: its class, the \<^verbatim>\<open>visible\<close> flag, the keys of
  \<^verbatim>\<open>self.components\<close>, the dictionary \<^verbatim>\<open>self.axes\<close> (each axes with its visibility),
  \<open>attrs\<close>, the names of the other attributes assigned on the instance so far, and
  \<open>members\<close>, the values of the attributes that the class's own methods use.  The
  dictionaries are association lists in insertion order, as Python's are.
\<close>

datatype tab_class = AnalysisTab | FilterTab | AnnotationsTab | ExportTab

datatype tab_members =
  Analysis_members analysis_tab
  | Filter_members filter_tab
  | Annotations_members annotations_tab
  | Export_members export_tab

record tab =
  cls :: tab_class
  visible :: bool
  components :: "string list"
  axes :: "(string \<times> bool) list"
  attrs :: "string list"
  members :: tab_members

text \<open>\<^verbatim>\<open>__init__\<close> of each class, after \<^verbatim>\<open>TabBase.__init__\<close>.\<close>

fun init_attrs :: "tab_class \<Rightarrow> string list" where
  "init_attrs AnalysisTab = [''fft_min_val'', ''fft_max_val'']"
| "init_attrs FilterTab = [''noise_profiles'', ''active_profile'', ''filter_intensity'']"
| "init_attrs AnnotationsTab = [''annotations'', ''current_annotation'']"
| "init_attrs ExportTab = []"

fun init_members :: "tab_class \<Rightarrow> tab_members" where
  "init_members AnalysisTab = Analysis_members AnalysisTab_init"
| "init_members FilterTab = Filter_members FilterTab_init"
| "init_members AnnotationsTab = Annotations_members AnnotationsTab_init"
| "init_members ExportTab = Export_members ExportTab_init"

definition tab_init :: "tab_class \<Rightarrow> tab" where
  "tab_init c =
     \<lparr>cls = c, visible = False, components = [], axes = [],
      attrs = [''fig'', ''parent_ax''] @ init_attrs c, members = init_members c\<rparr>"

text \<open>Assigning an attribute or a dictionary key that may exist already.\<close>

definition set_name :: "string \<Rightarrow> string list \<Rightarrow> string list" where
  "set_name a names = (if a \<in> set names then names else names @ [a])"

text \<open>\<^verbatim>\<open>s.lower().replace(' ', '_')\<close> on ASCII text.\<close>

definition lower_char :: "char \<Rightarrow> char" where
  "lower_char c =
     (let n = (of_char c :: nat) in if 65 \<le> n \<and> n \<le> 90 then char_of (n + 32) else c)"

definition key_of :: "string \<Rightarrow> string" where
  "key_of s = map (\<lambda>c. if c = CHR '' '' then CHR ''_'' else c) (map lower_char s)"

text \<open>
  \<^verbatim>\<open>TabBase.create_section\<close> and \<^verbatim>\<open>TabBase.create_button\<close>: what they store on the tab.
\<close>

definition create_section :: "string \<Rightarrow> tab \<Rightarrow> tab" where
  "create_section title t = t\<lparr>axes := AList.update (''section_'' @ key_of title) True (axes t)\<rparr>"

definition create_button :: "string \<Rightarrow> tab \<Rightarrow> tab" where
  "create_button label t =
     (let button_name = ''button_'' @ key_of label
      in t\<lparr>components := set_name button_name (components t),
            axes := AList.update (button_name @ ''_ax'') True (axes t)\<rparr>)"

text \<open>
  The statements of a \<^verbatim>\<open>build\<close> method that touch the tab object:
  \<^item> \<open>Assign_section a title\<close> is \<^verbatim>\<open>self.a = self.create_section(title, ...)\<close>;
  \<^item> \<open>Create_button s label\<close> is \<^verbatim>\<open>self.create_button(self.s, label, ...)\<close>;
  \<^item> \<open>Assign a\<close> is \<^verbatim>\<open>self.a = ...\<close> of a new widget or text; \<open>assign_member\<close> gives
    a \<^verbatim>\<open>Text\<close> attribute the text that \<^verbatim>\<open>build\<close> creates it with;
  \<^item> \<open>Axes_set k v\<close> is \<^verbatim>\<open>self.axes[k] = ax\<close>, \<open>v\<close> telling whether \<^verbatim>\<open>ax\<close> is
    visible then (\<^verbatim>\<open>ax.set_visible(False)\<close> may have been called on it);
  \<^item> \<open>Components_set k\<close> is \<^verbatim>\<open>self.components[k] = ...\<close>.

  Python looks an attribute up in the instance before the class.  Once an instance
  attribute \<^verbatim>\<open>create_section\<close> exists, \<^verbatim>\<open>self.create_section\<close> is that attribute, an
  \<^verbatim>\<open>Axes\<close> object, and calling it raises \<^verbatim>\<open>TypeError\<close>.  Reading an attribute that is
  neither assigned on the instance nor a method of \<^verbatim>\<open>TabBase\<close> (\<open>class_attrs\<close>) raises
  \<^verbatim>\<open>AttributeError\<close>.
\<close>

definition class_attrs :: "string list" where
  "class_attrs =
     [''build'', ''show'', ''hide'', ''on_show'', ''on_hide'', ''update'', ''on_update'',
      ''create_section'', ''create_button'']"

datatype stmt =
  Assign_section string string
  | Create_button string string
  | Assign string
  | Axes_set string bool
  | Components_set string

fun assign_member :: "string \<Rightarrow> tab_members \<Rightarrow> tab_members" where
  "assign_member a (Analysis_members t) =
     Analysis_members
       (if a = ''range_text'' then t\<lparr>range_text := Some (fft_min_val t, fft_max_val t)\<rparr>
        else if a = ''results_text'' then t\<lparr>results_text := Some No_measurements\<rparr>
        else if a = ''stats_text'' then t\<lparr>stats_text := Some No_statistics_available\<rparr>
        else t)"
| "assign_member a (Filter_members t) =
     Filter_members
       (if a = ''metadata_text'' then t\<lparr>metadata_text := Some [Lit ''Selection: None'']\<rparr>
        else if a = ''profiles_text''
        then t\<lparr>profiles_text := Some [Lit ''No profiles available'']\<rparr>
        else if a = ''status_text'' then t\<lparr>status_text := Some ''OFF''\<rparr>
        else t)"
| "assign_member a (Annotations_members t) =
     Annotations_members
       (if a = ''selection_text'' then t\<lparr>selection_text := Some [Lit ''No selection'']\<rparr>
        else if a = ''annotations_text''
        then t\<lparr>annotations_text := Some [Lit ''No annotations'']\<rparr>
        else t)"
| "assign_member a (Export_members t) =
     Export_members
       (if a = ''selection_text''
        then t\<lparr>export_selection_text := Some [Lit ''No audio selected for export'']\<rparr>
        else t)"

fun exec_stmt :: "stmt \<Rightarrow> tab \<Rightarrow> exn + tab" where
  "exec_stmt (Assign_section a title) t =
     (if ''create_section'' \<in> set (attrs t) then Inl TypeError
      else let t = create_section title t in Inr (t\<lparr>attrs := set_name a (attrs t)\<rparr>))"
| "exec_stmt (Create_button s label) t =
     (if s \<in> set (attrs t) \<or> s \<in> set class_attrs then Inr (create_button label t)
      else Inl AttributeError)"
| "exec_stmt (Assign a) t =
     Inr (t\<lparr>attrs := set_name a (attrs t), members := assign_member a (members t)\<rparr>)"
| "exec_stmt (Axes_set k v) t = Inr (t\<lparr>axes := AList.update k v (axes t)\<rparr>)"
| "exec_stmt (Components_set k) t = Inr (t\<lparr>components := set_name k (components t)\<rparr>)"

text \<open>Statements run in order; an exception ends the method and leaves the tab as it is.\<close>

fun exec_stmts :: "stmt list \<Rightarrow> tab \<Rightarrow> exn option \<times> tab" where
  "exec_stmts [] t = (None, t)"
| "exec_stmts (s # ss) t =
     (case exec_stmt s t of Inl e \<Rightarrow> (Some e, t) | Inr t' \<Rightarrow> exec_stmts ss t')"

fun build_body :: "tab_class \<Rightarrow> stmt list" where
  "build_body AnalysisTab =
     [Assign_section ''fft_section'' ''FFT Controls'',
      Assign_section ''measurement_section'' ''Measurements'',
      Assign_section ''statistics_section'' ''Statistics'',
      Create_button ''fft_section'' ''+Max'',
      Create_button ''fft_section'' ''-Max'',
      Create_button ''fft_section'' ''+Min'',
      Create_button ''fft_section'' ''-Min'',
      Create_button ''fft_section'' ''Auto Y'',
      Create_button ''fft_section'' ''Reset'',
      Assign ''range_text'',
      Axes_set ''range_display'' True,
      Create_button ''measurement_section'' ''Find Peaks'',
      Create_button ''measurement_section'' ''Measure'',
      Create_button ''measurement_section'' ''Clear'',
      Assign ''results_text'',
      Axes_set ''results_display'' True,
      Assign ''stats_text'',
      Axes_set ''stats_display'' True]"
| "build_body FilterTab =
     [Assign_section ''capture_section'' ''Capture Background Profile'',
      Assign_section ''profiles_section'' ''Noise Profiles'',
      Assign_section ''filtering_section'' ''Apply Filtering'',
      Create_button ''capture_section'' ''Capture Current Selection'',
      Assign ''name_input'',
      Axes_set ''name_input_ax'' True,
      Components_set ''name_input'',
      Create_button ''capture_section'' ''Save Profile'',
      Assign ''metadata_text'',
      Axes_set ''metadata_display'' True,
      Assign ''profiles_text'',
      Axes_set ''profiles_list'' True,
      Create_button ''profiles_section'' ''Load'',
      Create_button ''profiles_section'' ''Delete'',
      Create_button ''profiles_section'' ''Export'',
      Assign ''intensity_slider'',
      Axes_set ''intensity_slider_ax'' True,
      Components_set ''intensity_slider'',
      Create_button ''filtering_section'' ''Apply Filter'',
      Create_button ''filtering_section'' ''Reset'',
      Assign ''status_light'',
      Assign ''status_text'',
      Axes_set ''filter_status'' True]"
| "build_body AnnotationsTab =
     [Assign_section ''create_section'' ''Create Annotation'',
      Assign_section ''list_section'' ''Annotations List'',
      Assign_section ''edit_section'' ''Edit Annotation'',
      Create_button ''create_section'' ''Add Annotation'',
      Axes_set ''classification_ax'' False,
      Create_button ''create_section'' ''Clear Selection'',
      Assign ''selection_text'',
      Axes_set ''selection_display'' True,
      Assign ''annotations_text'',
      Axes_set ''annotations_list'' True,
      Axes_set ''comment_box'' False,
      Create_button ''edit_section'' ''Delete'',
      Create_button ''edit_section'' ''Jump To'',
      Create_button ''edit_section'' ''Export'']"
| "build_body ExportTab =
     [Assign_section ''audio_section'' ''Export Audio'',
      Assign_section ''image_section'' ''Export Images'',
      Assign_section ''report_section'' ''Generate Report'',
      Create_button ''audio_section'' ''Export Selected Audio'',
      Axes_set ''format_selection'' False,
      Assign ''selection_text'',
      Axes_set ''audio_selection'' True,
      Create_button ''image_section'' ''Export Spectrogram'',
      Create_button ''image_section'' ''Export FFT Plot'',
      Axes_set ''annotations_checkbox'' False,
      Axes_set ''resolution_selection'' False,
      Create_button ''report_section'' ''Generate Report'',
      Axes_set ''report_options'' False]"

definition build :: "tab \<Rightarrow> exn option \<times> tab" where
  "build t = exec_stmts (build_body (cls t)) t"

text \<open>
  \<^verbatim>\<open>TabBase.show\<close> and \<^verbatim>\<open>TabBase.hide\<close>.  The loop over the components calls
  \<^verbatim>\<open>set_visible\<close> only on a widget that has the method and changes nothing that the
  model holds; the loop over the axes sets every axes of the tab.

  \<^verbatim>\<open>show\<close> sets \<^verbatim>\<open>visible\<close> and the axes first and calls \<^verbatim>\<open>on_show\<close> last, so when the
  override raises, the tab stays visible.  The override that runs is the one of the
  object's class, whose attributes \<open>members\<close> holds.  \<^verbatim>\<open>on_hide\<close> is overridden
  nowhere.
\<close>

definition set_axes_visible :: "bool \<Rightarrow> tab \<Rightarrow> tab" where
  "set_axes_visible v t = t\<lparr>axes := map (\<lambda>(ax_name, _). (ax_name, v)) (axes t)\<rparr>"

definition on_show ::
  "(real list \<Rightarrow> nat list) \<Rightarrow> (noise_profile \<Rightarrow> noise_profile \<Rightarrow> exn + bool) \<Rightarrow>
     state \<Rightarrow> tab \<Rightarrow> exn option \<times> tab" where
  "on_show argsort dict_eq st t =
     (case members t of
        Analysis_members d \<Rightarrow>
          (case AnalysisTab_on_show argsort st d of
             (e, d) \<Rightarrow> (e, t\<lparr>members := Analysis_members d\<rparr>))
      | Filter_members d \<Rightarrow>
          (case FilterTab_on_show dict_eq st d of
             (e, d) \<Rightarrow> (e, t\<lparr>members := Filter_members d\<rparr>))
      | Annotations_members d \<Rightarrow>
          (case AnnotationsTab_on_show st d of
             (e, d) \<Rightarrow> (e, t\<lparr>members := Annotations_members d\<rparr>))
      | Export_members d \<Rightarrow>
          (case ExportTab_on_show st d of
             (e, d) \<Rightarrow> (e, t\<lparr>members := Export_members d\<rparr>)))"

definition on_hide :: "tab \<Rightarrow> tab" where
  "on_hide t = t"

definition show_tab ::
  "(real list \<Rightarrow> nat list) \<Rightarrow> (noise_profile \<Rightarrow> noise_profile \<Rightarrow> exn + bool) \<Rightarrow>
     state \<Rightarrow> tab \<Rightarrow> exn option \<times> tab" where
  "show_tab argsort dict_eq st t =
     on_show argsort dict_eq st ((set_axes_visible True t)\<lparr>visible := True\<rparr>)"

definition hide :: "tab \<Rightarrow> tab" where
  "hide t = on_hide ((set_axes_visible False t)\<lparr>visible := False\<rparr>)"

subsection \<open>\<^verbatim>\<open>TabManager\<close>\<close>

text \<open>
  \<open>tab_buttons\<close> maps a tab name to the two colours of its button.  The tab objects
  are held by value: \<^verbatim>\<open>add_tab\<close> creates each of them itself and no other reference to
  them exists.
\<close>

record tab_manager =
  tabs :: "(string \<times> tab) list"
  active_tab :: "string option"
  tab_buttons :: "(string \<times> string \<times> string) list"

definition TabManager_init :: tab_manager where
  "TabManager_init = \<lparr>tabs = [], active_tab = None, tab_buttons = []\<rparr>"

text \<open>
  \<^verbatim>\<open>add_tab\<close> stores the new tab under its name before it builds it, so a tab whose
  \<^verbatim>\<open>build\<close> raises stays in the dictionary, never hidden by \<^verbatim>\<open>hide\<close>.
\<close>

definition add_tab :: "string \<Rightarrow> tab_class \<Rightarrow> tab_manager \<Rightarrow> exn option \<times> tab_manager" where
  "add_tab name tab_class m =
     (let t = tab_init tab_class;
          m = m\<lparr>tabs := AList.update name t (tabs m)\<rparr>
      in case build t of
           (Some e, t) \<Rightarrow> (Some e, m\<lparr>tabs := AList.update name t (tabs m)\<rparr>)
         | (None, t) \<Rightarrow> (None, m\<lparr>tabs := AList.update name (hide t) (tabs m)\<rparr>))"

definition create_tab_buttons :: "tab_manager \<Rightarrow> tab_manager" where
  "create_tab_buttons m =
     (if length (tabs m) = 0 then m
      else m\<lparr>tab_buttons :=
               fold (\<lambda>(name, t). AList.update name (''#1E1E1E'', ''#2A2A2A''))
                 (tabs m) (tab_buttons m)\<rparr>)"

text \<open>
  \<^verbatim>\<open>switch_to_tab\<close>.  \<^verbatim>\<open>if self.active_tab and ...\<close> tests the truth value of the name:
  \<^verbatim>\<open>None\<close> and the empty string are both false.  \<^verbatim>\<open>self.tabs[name]\<close> is looked up again
  after the old tab was hidden (it may be the same tab); subscripting a dictionary with
  a missing key raises \<^verbatim>\<open>KeyError\<close>.  \<^verbatim>\<open>self.active_tab = name\<close> comes after
  \<^verbatim>\<open>self.tabs[name].show()\<close>: when \<^verbatim>\<open>show\<close> raises, the old tab is hidden already, the
  new one is visible, and \<^verbatim>\<open>active_tab\<close> still names the old one.
\<close>

definition set_button_colors :: "string \<Rightarrow> string \<times> string \<Rightarrow> tab_manager \<Rightarrow> tab_manager" where
  "set_button_colors name colors m =
     (if name \<in> fst ` set (tab_buttons m)
      then m\<lparr>tab_buttons := AList.update name colors (tab_buttons m)\<rparr> else m)"

definition switch_to_tab ::
  "(real list \<Rightarrow> nat list) \<Rightarrow> (noise_profile \<Rightarrow> noise_profile \<Rightarrow> exn + bool) \<Rightarrow>
     string \<Rightarrow> tab_manager \<times> state \<Rightarrow> exn option \<times> tab_manager \<times> state" where
  "switch_to_tab argsort dict_eq name = (\<lambda>(m, st).
     case map_of (tabs m) name of
       None \<Rightarrow>
         (None, m, add_log_entry [Lit (''Tab '' @ [CHR 0x27]), Lit name,
                                  Lit (CHR 0x27 # '' not found'')] st)
     | Some new_tab \<Rightarrow>
         let m = (case active_tab m of
                    None \<Rightarrow> m
                  | Some active \<Rightarrow>
                      (case (if active \<noteq> [] then map_of (tabs m) active else None) of
                         None \<Rightarrow> m
                       | Some old_tab \<Rightarrow>
                           set_button_colors active (''#1E1E1E'', ''#2A2A2A'')
                             (m\<lparr>tabs := AList.update active (hide old_tab) (tabs m)\<rparr>)))
         in (case map_of (tabs m) name of
               None \<Rightarrow> (Some KeyError, m, st)
             | Some new_tab \<Rightarrow>
                 (case show_tab argsort dict_eq st new_tab of
                    (Some e, shown) \<Rightarrow> (Some e, m\<lparr>tabs := AList.update name shown (tabs m)\<rparr>, st)
                  | (None, shown) \<Rightarrow>
                      let m = m\<lparr>tabs := AList.update name shown (tabs m), active_tab := Some name\<rparr>;
                          m = set_button_colors name (''#3A3A3A'', ''#444444'') m
                      in (None, m, add_log_entry [Lit ''Switched to '', Lit name, Lit '' tab''] st))))"

subsection \<open>\<^verbatim>\<open>ui_layout.create_modern_layout\<close>\<close>

text \<open>
  The part of \<^verbatim>\<open>create_modern_layout\<close> that touches the tab manager and the modelled
  attributes of module \<^verbatim>\<open>state\<close>: the FFT axes with its default limits, the manager, the
  four \<^verbatim>\<open>add_tab\<close> calls, the tab buttons and the switch to the first tab.  An exception
  of a call ends the function.
\<close>

definition create_modern_layout ::
  "(real list \<Rightarrow> nat list) \<Rightarrow> (noise_profile \<Rightarrow> noise_profile \<Rightarrow> exn + bool) \<Rightarrow>
     state \<Rightarrow> exn option \<times> tab_manager \<times> state" where
  "create_modern_layout argsort dict_eq st =
     (let st = st\<lparr>fft_ymin := 0, fft_ymax := 120, ax_fft := Some (0, 120)\<rparr>;
          tab_manager = TabManager_init
      in case add_tab ''analysis'' AnalysisTab tab_manager of
           (Some e, tab_manager) \<Rightarrow> (Some e, tab_manager, st)
         | (None, tab_manager) \<Rightarrow>
       (case add_tab ''filter'' FilterTab tab_manager of
           (Some e, tab_manager) \<Rightarrow> (Some e, tab_manager, st)
         | (None, tab_manager) \<Rightarrow>
       (case add_tab ''annotations'' AnnotationsTab tab_manager of
           (Some e, tab_manager) \<Rightarrow> (Some e, tab_manager, st)
         | (None, tab_manager) \<Rightarrow>
       (case add_tab ''export'' ExportTab tab_manager of
           (Some e, tab_manager) \<Rightarrow> (Some e, tab_manager, st)
         | (None, tab_manager) \<Rightarrow>
             switch_to_tab argsort dict_eq ''analysis''
               (create_tab_buttons tab_manager, st)))))"


text \<open>
  The names of the tabs whose \<^verbatim>\<open>visible\<close> is true, and the property of C1: at most one
  of them, and it is the one recorded in \<^verbatim>\<open>active_tab\<close>.
\<close>

definition visible_tabs :: "tab_manager \<Rightarrow> string list" where
  "visible_tabs m = map fst (filter (\<lambda>(name, t). visible t) (tabs m))"

definition mutually_exclusive :: "tab_manager \<Rightarrow> bool" where
  "mutually_exclusive m =
     (length (visible_tabs m) \<le> 1 \<and> list_all (\<lambda>name. active_tab m = Some name) (visible_tabs m))"

text \<open>
  The invariant that \<^verbatim>\<open>switch_to_tab\<close> keeps whenever it returns: the names of the tabs
  are distinct and not empty, and a visible tab is the active one.
\<close>

definition manager_inv :: "tab_manager \<Rightarrow> bool" where
  "manager_inv m =
     (distinct (map fst (tabs m)) \<and>
      (\<forall>n t. (n, t) \<in> set (tabs m) \<longrightarrow> n \<noteq> [] \<and> (visible t \<longrightarrow> active_tab m = Some n)))"

section \<open>\<^verbatim>\<open>state.py\<close>: the module and its functions\<close>

subsection \<open>Values and the module's variables\<close>

text \<open>
  The functions of \<^verbatim>\<open>state.py\<close> read and assign the module's variables by name, and what
  \<^verbatim>\<open>reset_state\<close> does depends on Python's scoping, so here the module is a map from
  variable names to values.  The values are Python's primitives and containers and the
  kinds of object that the module holds: a pytz timezone (with its \<^verbatim>\<open>zone\<close>), a slider
  (with its \<^verbatim>\<open>val\<close>), a line (with its x data) and any other object (a figure, an axes,
  an image, a thread), of which only an identifying name is kept.  Floats are idealised
  as reals.
\<close>

datatype pyval =
  PNone | PBool bool | PInt int | PFloat real | PStr string
  | PTuple "pyval list" | PList "pyval list" | PDict "(string \<times> pyval) list"
  | PTimezone string | PSlider pyval | PLine2D "real list" | PObject string

type_synonym namespace = "string \<rightharpoonup> pyval"

text \<open>The module-level assignments of \<^verbatim>\<open>state.py\<close>, lines 15 to 93, in order.\<close>

definition empty_marker :: "int \<Rightarrow> pyval" where
  "empty_marker i = PTuple [PNone, PNone, PInt i, PNone, PNone]"

definition module_level :: "(string \<times> pyval) list" where
  "module_level =
     [(''data_global'', PNone), (''freqs_global'', PNone), (''file_paths'', PList []),
      (''file_ranges'', PList []), (''time_labels_all'', PList []),
      (''timestamp_all'', PList []), (''current_timezone'', PTimezone ''UTC''),
      (''audio_data'', PNone), (''audio_sample_rate'', PInt 44100),
      (''audio_segments'', PList []), (''audio_file_info'', PList []),
      (''audio_volume'', PFloat (1 / 2)), (''audio_playing'', PBool False),
      (''audio_stop_flag'', PBool False), (''audio_finished'', PBool False),
      (''audio_thread'', PNone), (''audio_stream'', PNone), (''audio_buffer'', PNone),
      (''audio_position'', PNone), (''audio_playback_line'', PNone),
      (''audio_playback_line_timeline'', PNone),
      (''spec_img'', PNone), (''nav_spec_img'', PNone), (''time_zoom_start'', PInt 0),
      (''time_zoom_end'', PInt 0), (''nav_dragging'', PBool False),
      (''nav_resizing'', PBool False), (''nav_drag_start'', PNone),
      (''nav_resize_edge'', PNone), (''nav_box'', PNone), (''spec_click_line'', PNone),
      (''spec_click_text'', PNone), (''selected_range'', PNone), (''fft_patch'', PNone),
      (''file_patch'', PNone), (''file_texts'', PList []), (''fft_ymin'', PInt 0),
      (''fft_ymax'', PInt 120),
      (''freq_markers'', PList [empty_marker 0, empty_marker 1]),
      (''tab_manager'', PNone),
      (''file_scroll_position'', PInt 0), (''visible_files'', PInt 12),
      (''scroll_position'', PInt 0), (''log_entries'', PList []), (''info_labels'', PDict []),
      (''fig'', PNone), (''ax_spec'', PNone), (''ax_nav_spec'', PNone), (''ax_fft'', PNone),
      (''ax_audio_timeline'', PNone), (''ax_audio_controls'', PNone),
      (''ax_audio_play'', PNone), (''ax_audio_visualizer'', PNone), (''ax_vu_meter'', PNone),
      (''ax_time_display'', PNone), (''ax_filelist'', PNone), (''ax_log'', PNone),
      (''ax_info'', PNone), (''ax_status'', PNone),
      (''btn_audio_play'', PNone), (''btn_timezone'', PNone), (''gain_slider'', PNone),
      (''timezone_dropdown'', PNone)]"

definition initial_module :: namespace where
  "initial_module = map_of module_level"

subsection \<open>\<^verbatim>\<open>reset_state\<close>\<close>

text \<open>
  Inside a function, an assignment to a name binds a local variable unless the name is
  declared \<^verbatim>\<open>global\<close>.  \<open>assign\<close> runs one assignment on the pair of the module's
  variables and the function's locals; when the function returns its locals are gone.
\<close>

definition assign :: "string list \<Rightarrow> string \<times> pyval \<Rightarrow> namespace \<times> namespace \<Rightarrow> namespace \<times> namespace" where
  "assign declared_global = (\<lambda>(name, v) (globals, locals).
     if name \<in> set declared_global then (globals(name \<mapsto> v), locals)
     else (globals, locals(name \<mapsto> v)))"

text \<open>The thirteen \<^verbatim>\<open>global\<close> statements of \<^verbatim>\<open>reset_state\<close>, lines 143 to 155.\<close>

definition reset_state_globals :: "string list" where
  "reset_state_globals =
     [''data_global'', ''freqs_global'', ''file_paths'', ''file_ranges'', ''time_labels_all'',
      ''timestamp_all'', ''audio_data'', ''audio_sample_rate'', ''audio_segments'',
      ''audio_file_info'', ''audio_volume'', ''audio_playing'', ''audio_stop_flag'',
      ''audio_finished'', ''audio_thread'', ''audio_playback_line'',
      ''audio_playback_line_timeline'', ''spec_img'', ''nav_spec_img'',
      ''time_zoom_start'', ''time_zoom_end'', ''nav_dragging'', ''nav_resizing'',
      ''nav_drag_start'', ''nav_resize_edge'', ''nav_box'', ''spec_click_line'',
      ''spec_click_text'', ''selected_range'', ''fft_patch'', ''file_patch'',
      ''file_texts'', ''log_entries'', ''info_labels'', ''fig'', ''ax_spec'',
      ''ax_nav_spec'', ''ax_fft'', ''ax_audio_timeline'', ''ax_audio_controls'',
      ''ax_audio_play'', ''ax_audio_visualizer'', ''ax_vu_meter'', ''ax_time_display'',
      ''ax_filelist'', ''ax_log'', ''ax_info'', ''ax_status'', ''btn_audio_play'',
      ''btn_timezone'', ''gain_slider'', ''timezone_dropdown'']"

text \<open>The assignments of its body, lines 158 to 204.\<close>

definition reset_state_body :: "(string \<times> pyval) list" where
  "reset_state_body =
     [(''data_global'', PNone), (''freqs_global'', PNone), (''file_paths'', PList []),
      (''file_ranges'', PList []), (''time_labels_all'', PList []),
      (''timestamp_all'', PList []), (''current_timezone'', PTimezone ''UTC''),
      (''audio_data'', PNone), (''audio_sample_rate'', PInt 44100),
      (''audio_segments'', PList []), (''audio_file_info'', PList []),
      (''audio_volume'', PFloat (1 / 2)), (''audio_playing'', PBool False),
      (''audio_stop_flag'', PBool False), (''audio_finished'', PBool False),
      (''audio_thread'', PNone), (''audio_playback_line'', PNone),
      (''audio_playback_line_timeline'', PNone),
      (''spec_img'', PNone), (''nav_spec_img'', PNone), (''time_zoom_start'', PInt 0),
      (''time_zoom_end'', PInt 0), (''nav_dragging'', PBool False),
      (''nav_resizing'', PBool False), (''nav_drag_start'', PNone),
      (''nav_resize_edge'', PNone), (''nav_box'', PNone), (''spec_click_line'', PNone),
      (''spec_click_text'', PNone), (''selected_range'', PNone), (''fft_patch'', PNone),
      (''file_patch'', PNone), (''file_texts'', PList []), (''fft_ymin'', PInt 0),
      (''fft_ymax'', PInt 120),
      (''freq_markers'', PList [empty_marker 0, empty_marker 1]),
      (''file_scroll_position'', PInt 0), (''visible_files'', PInt 12),
      (''scroll_position'', PInt 0), (''log_entries'', PList []), (''info_labels'', PDict [])]"

definition reset_state :: "namespace \<Rightarrow> namespace" where
  "reset_state globals = fst (fold (assign reset_state_globals) reset_state_body (globals, Map.empty))"

subsection \<open>\<^verbatim>\<open>save_project\<close> and \<^verbatim>\<open>load_project\<close>\<close>

text \<open>
  Truth value, attribute access and iteration of the values above.  Every object of the
  last four kinds is true; only a timezone has \<^verbatim>\<open>zone\<close>, only a slider has \<^verbatim>\<open>val\<close>, only
  a line has \<^verbatim>\<open>get_xdata\<close>.  Iterating a string yields its characters, iterating a
  dictionary its keys.
\<close>

fun truthy :: "pyval \<Rightarrow> bool" where
  "truthy PNone = False"
| "truthy (PBool b) = b"
| "truthy (PInt n) = (n \<noteq> 0)"
| "truthy (PFloat x) = (x \<noteq> 0)"
| "truthy (PStr s) = (s \<noteq> [])"
| "truthy (PTuple xs) = (xs \<noteq> [])"
| "truthy (PList xs) = (xs \<noteq> [])"
| "truthy (PDict kvs) = (kvs \<noteq> [])"
| "truthy _ = True"

fun get_val :: "pyval \<Rightarrow> exn + pyval" where
  "get_val (PSlider v) = Inr v"
| "get_val _ = Inl AttributeError"

fun zone_or_UTC :: "pyval \<Rightarrow> pyval" where
  "zone_or_UTC (PTimezone z) = PStr z"
| "zone_or_UTC _ = PStr ''UTC''"

fun get_xdata :: "pyval \<Rightarrow> exn + real list" where
  "get_xdata (PLine2D xs) = Inr xs"
| "get_xdata _ = Inl AttributeError"

fun py_iter :: "pyval \<Rightarrow> exn + pyval list" where
  "py_iter (PTuple xs) = Inr xs"
| "py_iter (PList xs) = Inr xs"
| "py_iter (PStr s) = Inr (map (\<lambda>c. PStr [c]) s)"
| "py_iter (PDict kvs) = Inr (map (\<lambda>(k, v). PStr k) kvs)"
| "py_iter _ = Inl TypeError"

text \<open>
  Statements in sequence: \<open>and_then r f\<close> goes on with \<open>f\<close> on the value of \<open>r\<close>, or
  stops with the exception that \<open>r\<close> raised.
\<close>

definition and_then :: "exn + 'a \<Rightarrow> ('a \<Rightarrow> exn + 'b) \<Rightarrow> exn + 'b" where
  "and_then r f = (case r of Inl e \<Rightarrow> Inl e | Inr x \<Rightarrow> f x)"

text \<open>Reading a module variable inside a function; an unbound name raises.\<close>

definition read_global :: "namespace \<Rightarrow> string \<Rightarrow> exn + pyval" where
  "read_global globals name = (case globals name of None \<Rightarrow> Inl NameError | Some v \<Rightarrow> Inr v)"

text \<open>
  One turn of \<^verbatim>\<open>for _, _, _, freq, _ in freq_markers\<close>: the marker is unpacked into
  five names (\<^verbatim>\<open>TypeError\<close> if it cannot be iterated, \<^verbatim>\<open>ValueError\<close> if it does not have
  five items), and \<open>freq\<close> is the fourth.
\<close>

definition marker_freq :: "pyval \<Rightarrow> exn + pyval" where
  "marker_freq marker =
     (case py_iter marker of
        Inl e \<Rightarrow> Inl e
      | Inr items \<Rightarrow> if length items = 5 then Inr (items ! 3) else Inl ValueError)"

fun marker_freqs_loop :: "pyval list \<Rightarrow> pyval list \<Rightarrow> exn + pyval list" where
  "marker_freqs_loop [] marker_freqs = Inr marker_freqs"
| "marker_freqs_loop (marker # rest) marker_freqs =
     (case marker_freq marker of
        Inl e \<Rightarrow> Inl e
      | Inr freq \<Rightarrow> marker_freqs_loop rest (marker_freqs @ [freq]))"

text \<open>
  The dictionary that \<^verbatim>\<open>save_project\<close> builds, lines 100 to 115, or the exception that
  building it raises.
\<close>

definition make_state_dict :: "namespace \<Rightarrow> exn + (string \<times> pyval) list" where
  "make_state_dict globals =
     and_then (read_global globals ''file_paths'') (\<lambda>file_paths.
     and_then (read_global globals ''time_zoom_start'') (\<lambda>time_zoom_start.
     and_then (read_global globals ''time_zoom_end'') (\<lambda>time_zoom_end.
     and_then (read_global globals ''gain_slider'') (\<lambda>gain_slider.
     and_then (if truthy gain_slider then get_val gain_slider
               else Inr (PTuple [PInt 0, PInt 1])) (\<lambda>gain.
     and_then (read_global globals ''current_timezone'') (\<lambda>current_timezone.
     let d = [(''file_paths'', file_paths),
              (''time_zoom'', PTuple [time_zoom_start, time_zoom_end]),
              (''gain'', gain),
              (''current_timezone'', zone_or_UTC current_timezone)]
     in
     and_then (read_global globals ''spec_click_line'') (\<lambda>spec_click_line.
     and_then (if truthy spec_click_line then
                 and_then (get_xdata spec_click_line) (\<lambda>xdata.
                 and_then (py_getitem xdata 0) (\<lambda>x0.
                 Inr (AList.update ''click_index'' (PInt (py_int x0)) d)))
               else Inr d) (\<lambda>d.
     and_then (read_global globals ''freq_markers'') (\<lambda>freq_markers.
     and_then (py_iter freq_markers) (\<lambda>markers.
     and_then (marker_freqs_loop markers []) (\<lambda>marker_freqs.
     Inr (AList.update ''freq_markers'' (PList marker_freqs) d))))))))))))"

text \<open>
  The world outside the module: the files (a path that holds a file opens for reading),
  the paths that \<^verbatim>\<open>open(path, 'wb')\<close> accepts, and the records of the \<^verbatim>\<open>logging\<close> module.
  \<open>Error msg e\<close> is \<^verbatim>\<open>logging.error(f"msg{e}", exc_info=True)\<close>.  The contents of a file
  are of any type \<open>'b\<close>.
\<close>

datatype log_record = Info fstring | Error fstring exn

record 'b world =
  files :: "string \<rightharpoonup> 'b"
  writable :: "string \<Rightarrow> bool"
  logging :: "log_record list"

text \<open>
  \<^verbatim>\<open>pickle\<close> is a library: \<open>dumps\<close> is what \<^verbatim>\<open>pickle.dump\<close> writes for a value (or the
  exception it raises), \<open>loads\<close> what \<^verbatim>\<open>pickle.load\<close> reads from contents (or the
  exception it raises), and \<open>blank\<close> is the contents of a file just opened for
  writing.

  \<open>save_try\<close> is the \<^verbatim>\<open>try\<close> block of \<^verbatim>\<open>save_project\<close> up to \<^verbatim>\<open>return True\<close>: it yields the
  exception raised, if any, and the world as the block left it.  Opening the file
  truncates it, so a failing \<^verbatim>\<open>pickle.dump\<close> leaves an empty file behind.
\<close>

definition save_try ::
  "(pyval \<Rightarrow> exn + 'b) \<Rightarrow> 'b \<Rightarrow> namespace \<Rightarrow> string \<Rightarrow> 'b world \<Rightarrow> exn option \<times> 'b world" where
  "save_try dumps blank globals filepath w =
     (case make_state_dict globals of
        Inl e \<Rightarrow> (Some e, w)
      | Inr d \<Rightarrow>
          if \<not> writable w filepath then (Some OSError, w)
          else
            let w = w\<lparr>files := (files w)(filepath \<mapsto> blank)\<rparr>
            in (case dumps (PDict d) of
                  Inl e \<Rightarrow> (Some e, w)
                | Inr bytes \<Rightarrow>
                    (None, w\<lparr>files := (files w)(filepath \<mapsto> bytes),
                              logging := logging w @ [Info [Lit ''Project saved to '', Lit filepath]]\<rparr>)))"

text \<open>
  The handler of both functions is \<^verbatim>\<open>except Exception as e\<close>: an exception derived from
  \<^verbatim>\<open>Exception\<close> is logged and the function returns \<^verbatim>\<open>False\<close> or \<^verbatim>\<open>None\<close>; any other
  exception leaves the function.  (Formatting the exception into the message and the
  call of \<^verbatim>\<open>logging.error\<close> return.)  The result is \<open>Inr\<close> of the value returned or
  \<open>Inl\<close> of the exception that left the function.
\<close>

definition save_project ::
  "(pyval \<Rightarrow> exn + 'b) \<Rightarrow> 'b \<Rightarrow> namespace \<Rightarrow> string \<Rightarrow> 'b world \<Rightarrow>
     (exn + bool) \<times> 'b world" where
  "save_project dumps blank globals filepath w =
     (case save_try dumps blank globals filepath w of
        (None, w) \<Rightarrow> (Inr True, w)
      | (Some e, w) \<Rightarrow>
          if is_Exception e
          then (Inr False, w\<lparr>logging := logging w @ [Error [Lit ''Error saving project: ''] e]\<rparr>)
          else (Inl e, w))"

definition load_try ::
  "('b \<Rightarrow> exn + pyval) \<Rightarrow> string \<Rightarrow> 'b world \<Rightarrow> (exn + pyval) \<times> 'b world" where
  "load_try loads filepath w =
     (case files w filepath of
        None \<Rightarrow> (Inl OSError, w)
      | Some bytes \<Rightarrow>
          (case loads bytes of
             Inl e \<Rightarrow> (Inl e, w)
           | Inr state_dict \<Rightarrow>
               (Inr state_dict,
                w\<lparr>logging := logging w @ [Info [Lit ''Project loaded from '', Lit filepath]]\<rparr>)))"

definition load_project ::
  "('b \<Rightarrow> exn + pyval) \<Rightarrow> string \<Rightarrow> 'b world \<Rightarrow> (exn + pyval option) \<times> 'b world" where
  "load_project loads filepath w =
     (case load_try loads filepath w of
        (Inr state_dict, w) \<Rightarrow> (Inr (Some state_dict), w)
      | (Inl e, w) \<Rightarrow>
          if is_Exception e
          then (Inr None, w\<lparr>logging := logging w @ [Error [Lit ''Error loading project: ''] e]\<rparr>)
          else (Inl e, w))"

text \<open>
  What the two functions rely on from the library: what \<^verbatim>\<open>pickle.dump\<close> wrote,
  \<^verbatim>\<open>pickle.load\<close> reads back as the same value.
\<close>

definition pickle_contract :: "(pyval \<Rightarrow> exn + 'b) \<Rightarrow> ('b \<Rightarrow> exn + pyval) \<Rightarrow> bool" where
  "pickle_contract dumps loads = (\<forall>v bytes. dumps v = Inr bytes \<longrightarrow> loads bytes = Inr v)"

text \<open>
  A stand-in that meets the contract, for running the functions on an example.  The
  contents of a file are nothing (an empty file, on which \<^verbatim>\<open>pickle.load\<close> raises
  \<^verbatim>\<open>EOFError\<close>), the pickle of a value, or a pickle that names \<^verbatim>\<open>sys.exit\<close> as the
  callable to rebuild its object with: \<^verbatim>\<open>pickle.load\<close> calls it, and it raises
  \<^verbatim>\<open>SystemExit\<close>.  \<open>interrupted_dumps\<close> is a \<^verbatim>\<open>pickle.dump\<close> during which the user
  presses Ctrl-C.
\<close>

datatype stored = Empty_file | Pickle_of pyval | Pickle_calling_exit

definition plain_dumps :: "pyval \<Rightarrow> exn + stored" where
  "plain_dumps v = Inr (Pickle_of v)"

fun plain_loads :: "stored \<Rightarrow> exn + pyval" where
  "plain_loads Empty_file = Inl EOFError"
| "plain_loads (Pickle_of v) = Inr v"
| "plain_loads Pickle_calling_exit = Inl SystemExit"


definition example_world :: "stored world" where
  "example_world = \<lparr>files = Map.empty, writable = (\<lambda>path. path \<noteq> ''/''), logging = []\<rparr>"



text \<open>A module in use: two files loaded, a zoom, a timezone, a click and one marker set.\<close>

definition example_module :: namespace where
  "example_module = initial_module
     (''file_paths'' \<mapsto> PList [PStr ''a.txt'', PStr ''b.txt''],
      ''time_zoom_start'' \<mapsto> PInt 10, ''time_zoom_end'' \<mapsto> PInt 250,
      ''current_timezone'' \<mapsto> PTimezone ''Europe/Oslo'',
      ''spec_click_line'' \<mapsto> PLine2D [427 / 10, 427 / 10],
      ''fft_ymin'' \<mapsto> PInt 10, ''fft_ymax'' \<mapsto> PInt 90,
      ''freq_markers'' \<mapsto>
         PList [PTuple [PObject ''vline'', PObject ''text'', PInt 0, PFloat 440, PObject ''hline''],
                empty_marker 1],
      ''visible_files'' \<mapsto> PInt 20)"

chapter \<open>Properties\<close>

section \<open>The FFT display range (C9)\<close>

lemma update_range_display_vals [simp]:
  "fft_min_val (update_range_display t) = fft_min_val t"
  "fft_max_val (update_range_display t) = fft_max_val t"
  by (simp_all add: update_range_display_def)

lemma fft_call_step_gap:
  assumes "fft_gap (fst s)"
  shows "fft_gap (fst (fft_call_step c s))"
proof (cases s)
  case (Pair t st)
  with assms have g: "- 20 \<le> fft_min_val t" "fft_min_val t + 10 \<le> fft_max_val t"
    by (simp_all add: fft_gap_def)
  show ?thesis
  proof (cases c)
    case (Adjust_fft_min d)
    with Pair g show ?thesis
      by (simp add: adjust_fft_min_def fft_gap_def Let_def)
  next
    case (Adjust_fft_max d)
    with Pair g show ?thesis
      by (simp add: adjust_fft_max_def fft_gap_def Let_def)
  next
    case On_reset_fft
    with Pair show ?thesis
      by (simp add: on_reset_fft_def fft_gap_def Let_def)
  qed
qed

lemma fft_calls_gap: "fft_gap (fst s) \<Longrightarrow> fft_gap (fst (fft_calls cs s))"
  by (induction cs arbitrary: s) (simp_all add: fft_call_step_gap)

text \<open>
  C9.  Starting from \<open>fft_min_val = 0\<close> and \<open>fft_max_val = 120\<close>, every finite sequence
  of \<open>adjust_fft_min\<close>, \<open>adjust_fft_max\<close> (any integer deltas) and \<open>on_reset_fft\<close> calls
  leaves \<open>fft_min_val \<ge> -20\<close> and \<open>fft_max_val \<ge> fft_min_val + 10\<close>, whatever the
  other attributes of the tab and of module \<open>state\<close> are.
\<close>

theorem fft_range_keeps_gap:
  "fft_gap (fst (fft_calls cs (t\<lparr>fft_min_val := 0, fft_max_val := 120\<rparr>, st)))"
  by (rule fft_calls_gap) (simp add: fft_gap_def)

theorem fft_range_keeps_gap_witness:
  "fft_gap (fst (fft_calls [Adjust_fft_min (- 500), Adjust_fft_max (- 500), On_reset_fft,
       Adjust_fft_min 500]
     (AnalysisTab_init\<lparr>fft_min_val := 0, fft_max_val := 120\<rparr>,
      \<lparr>data_global = None, freqs_global = None, time_labels_all = Some [],
       selected_range = None, spec_click_line = None, ax_fft = Some (0, 120),
       fft_ymin = 0, fft_ymax = 120, log_entries = []\<rparr>))) \<and>
   fft_min_val (fst (fft_calls [Adjust_fft_min (- 500), Adjust_fft_max (- 500)]
     (AnalysisTab_init, example_state))) = - 20 \<and>
   fft_max_val (fst (fft_calls [Adjust_fft_min (- 500), Adjust_fft_max (- 500)]
     (AnalysisTab_init, example_state))) = - 10 \<and>
   fft_min_val (fst (fft_calls [Adjust_fft_min (- 500), Adjust_fft_max (- 500), On_reset_fft,
       Adjust_fft_min 500] (AnalysisTab_init, example_state))) = 110"
  using fft_range_keeps_gap[of "[Adjust_fft_min (- 500), Adjust_fft_max (- 500), On_reset_fft,
       Adjust_fft_min 500]" AnalysisTab_init]
  by (simp add: adjust_fft_min_def adjust_fft_max_def on_reset_fft_def AnalysisTab_init_def
      example_state_def add_log_entry_def update_range_display_def Let_def)


section \<open>Noise profiles (C3, C4)\<close>

lemma collect_frames_in_range:
  "\<forall>i \<in> set is. 0 \<le> i \<and> i < int (length data) \<Longrightarrow>
     collect_frames data is = Inr (map (\<lambda>i. data ! nat i) is)"
  by (induction "is") (simp_all add: py_getitem_def)

lemma np_vstack_same_length:
  "rows \<noteq> [] \<Longrightarrow> \<forall>r \<in> set rows. length r = k \<Longrightarrow> np_vstack rows = Inr rows"
  by (cases rows) (simp_all add: np_vstack_def list_all_iff)

lemma label_or_na_nonneg: "0 \<le> i \<Longrightarrow> \<exists>s. label_or_na labels i = Inr s"
  by (simp add: label_or_na_def py_getitem_def)

lemma time_span_nonneg: "0 \<le> a \<Longrightarrow> 0 \<le> b \<Longrightarrow> \<exists>s. time_span labels a b = Inr s"
  using label_or_na_nonneg[of a labels] label_or_na_nonneg[of b labels]
  by (auto simp: time_span_def)

lemma update_profiles_display_profiles:
  "update_profiles_display dict_eq t = (e, t') \<Longrightarrow> noise_profiles t' = noise_profiles t"
  by (auto simp: update_profiles_display_def split: if_splits option.splits sum.splits)

lemma np_mean_axis0_frames:
  assumes "start \<le> end" "\<forall>i \<in> {start..end}. length (data ! nat i) = k"
  shows "np_mean_axis0 (map (\<lambda>i. data ! nat i) [start..end]) =
         map (\<lambda>j. (\<Sum>i = start..end. data ! nat i ! j) / of_int (end - start + 1)) [0..<k]"
proof -
  have ne: "[start..end] \<noteq> []" using assms(1) by (simp add: upto_rec1)
  then have hd: "hd (map (\<lambda>i. data ! nat i) [start..end]) = data ! nat start"
    using assms(1) by (simp add: upto_rec1)
  have len: "length (data ! nat start) = k" using assms by simp
  have n: "real (length (map (\<lambda>i. data ! nat i) [start..end])) = of_int (end - start + 1)"
    using assms(1) by (simp add: of_nat_nat)
  have s: "\<And>j. sum_list (map (\<lambda>r. r ! j) (map (\<lambda>i. data ! nat i) [start..end])) =
           (\<Sum>i = start..end. data ! nat i ! j)"
    by (simp add: comp_def sum_list_distinct_conv_sum_set)
  show ?thesis
    unfolding np_mean_axis0_def hd len s n ..
qed

text \<open>
  C3.  With \<open>selected_range = (start, end)\<close>, \<open>0 \<le> start \<le> end < len(data_global)\<close> and
  the selected frames all \<open>k\<close> bins long, \<open>on_save_profile\<close> appends exactly one profile
  to \<open>noise_profiles\<close>; its \<open>range\<close> is \<open>(start, end)\<close> and its \<open>data\<close> is, bin by bin,
  the sum of the frames \<open>start .. end\<close> divided by their number.  This holds whatever
  the display update after the append does, even when it raises.
\<close>

theorem on_save_profile_mean:
  assumes sel: "selected_range st = Some (start, end)"
    and dat: "data_global st = Some data"
    and rng: "0 \<le> start" "start \<le> end" "end < int (length data)"
    and rect: "\<forall>i \<in> {start..end}. length (data ! nat i) = k"
    and run: "on_save_profile dict_eq (t, st) = (err, t', st')"
  shows "\<exists>p. noise_profiles t' = noise_profiles t @ [p] \<and> key_range p = (start, end) \<and>
             key_data p =
               map (\<lambda>j. (\<Sum>i = start..end. data ! nat i ! j) / of_int (end - start + 1)) [0..<k]"
proof -
  let ?rows = "map (\<lambda>i. data ! nat i) [start..end]"
  have cf: "collect_frames data [start..end] = Inr ?rows"
    using rng by (intro collect_frames_in_range) auto
  have vs: "np_vstack ?rows = Inr ?rows"
    using rng rect by (intro np_vstack_same_length[where k = k]) (auto simp: upto_rec1)
  have mean: "np_mean_axis0 ?rows =
      map (\<lambda>j. (\<Sum>i = start..end. data ! nat i ! j) / of_int (end - start + 1)) [0..<k]"
    using rng rect by (intro np_mean_axis0_frames) auto
  have ts: "\<And>labels. \<exists>s. time_span labels start end = Inr s"
    using time_span_nonneg rng by auto
  show ?thesis
  proof (cases "time_labels_all st")
    case None
    with run sel dat rng cf vs mean show ?thesis
      by (auto simp: on_save_profile_def Let_def split: prod.splits option.splits
          dest!: update_profiles_display_profiles)
  next
    case (Some labels)
    from ts obtain s where "time_span labels start end = Inr s" by blast
    with Some run sel dat rng cf vs mean show ?thesis
      by (auto simp: on_save_profile_def Let_def split: prod.splits option.splits
          dest!: update_profiles_display_profiles)
  qed
qed

theorem on_save_profile_mean_witness:
  "\<exists>err t' st' p.
     on_save_profile (\<lambda>p a. Inr False) (FilterTab_built, example_state) = (err, t', st') \<and>
     noise_profiles t' = noise_profiles FilterTab_built @ [p] \<and> key_range p = (0, 1) \<and>
     key_data p =
       map (\<lambda>j. (\<Sum>i = 0..1. [[0, 30, 5, 40, 10, 20, 3], [2, 10, 7, 0, 10, 0, 1],
                                [5, 7, 5, 7, 5, 7, 5 :: real]] ! nat i ! j) / of_int (1 - 0 + 1))
         [0..<7] \<and>
     key_data (last (noise_profiles t')) = [1, 20, 6, 20, 10, 10, 2]"
proof -
  let ?data = "[[0, 30, 5, 40, 10, 20, 3], [2, 10, 7, 0, 10, 0, 1], [5, 7, 5, 7, 5, 7, 5 :: real]]"
  obtain err t' st' where
    run: "on_save_profile (\<lambda>p a. Inr False) (FilterTab_built, example_state) = (err, t', st')"
    by (metis prod_cases3)
  have rect: "\<forall>i \<in> {0..1::int}. length (?data ! nat i) = 7"
  proof
    fix i :: int assume "i \<in> {0..1}"
    then have "i = 0 \<or> i = 1" by auto
    then show "length (?data ! nat i) = 7" by auto
  qed
  have "\<exists>p. noise_profiles t' = noise_profiles FilterTab_built @ [p] \<and> key_range p = (0, 1) \<and>
     key_data p = map (\<lambda>j. (\<Sum>i = 0..1. ?data ! nat i ! j) / of_int (1 - 0 + 1)) [0..<7]"
    by (rule on_save_profile_mean[OF _ _ _ _ _ rect run]) (simp_all add: example_state_def)
  moreover have "key_data (last (noise_profiles t')) = [1, 20, 6, 20, 10, 10, 2]"
    using run
    by (auto simp add: on_save_profile_def example_state_def FilterTab_built_def FilterTab_init_def
        py_getitem_def np_vstack_def np_mean_axis0_def time_span_def label_or_na_def Let_def
        add_log_entry_def update_profiles_display_def upto_rec1 fstring_empty_def upt_conv_Cons)
  ultimately show ?thesis using run by blast
qed

lemma on_intensity_change_frame:
  "on_intensity_change v (t, st) = (t', st') \<Longrightarrow>
     data_global st' = data_global st \<and> freqs_global st' = freqs_global st \<and>
     noise_profiles t' = noise_profiles t"
  by (auto simp: on_intensity_change_def add_log_entry_def)

text \<open>
  C4.  Whatever the active profile and the filter status, \<open>on_toggle_filter\<close> leaves
  \<open>data_global\<close>, \<open>freqs_global\<close> and the saved noise profiles as they are: module
  \<open>state\<close> changes in \<open>log_entries\<close> only and the tab in its status light and status
  text only, and once the status text exists the call returns with exactly one new log
  entry.
\<close>

theorem on_toggle_filter_frame:
  assumes "on_toggle_filter (t, st) = (err, t', st')"
  shows "data_global st' = data_global st \<and> freqs_global st' = freqs_global st \<and>
         noise_profiles t' = noise_profiles t \<and>
         st' = st\<lparr>log_entries := log_entries st'\<rparr> \<and>
         t' = t\<lparr>status_light := status_light t', status_text := status_text t'\<rparr> \<and>
         (status_text t \<noteq> None \<longrightarrow>
            err = None \<and> (\<exists>msg. log_entries st' = log_entries st @ [msg]))"
  using assms
  by (auto simp: on_toggle_filter_def add_log_entry_def split: if_splits option.splits)

theorem on_toggle_filter_frame_witness:
  "\<exists>err t' st'.
     on_toggle_filter (FilterTab_built\<lparr>active_profile := Some example_profile\<rparr>, example_state)
       = (err, t', st') \<and>
     err = None \<and> data_global st' = data_global example_state \<and>
     freqs_global st' = freqs_global example_state \<and> noise_profiles t' = [] \<and>
     status_text t' = Some ''ON'' \<and> status_light t' = ''green'' \<and>
     (\<exists>msg. log_entries st' = log_entries example_state @ [msg])"
proof -
  let ?t = "FilterTab_built\<lparr>active_profile := Some example_profile\<rparr>"
  obtain err t' st' where run: "on_toggle_filter (?t, example_state) = (err, t', st')"
    by (metis prod_cases3)
  have shown: "status_text ?t \<noteq> None" by (simp add: FilterTab_built_def)
  from on_toggle_filter_frame[OF run] shown
  have "err = None" "data_global st' = data_global example_state"
    "freqs_global st' = freqs_global example_state" "noise_profiles t' = noise_profiles ?t"
    "\<exists>msg. log_entries st' = log_entries example_state @ [msg]"
    by blast+
  moreover have "status_text t' = Some ''ON''" "status_light t' = ''green''"
    using run by (auto simp: on_toggle_filter_def FilterTab_built_def FilterTab_init_def)
  moreover have "noise_profiles ?t = []" by (simp add: FilterTab_built_def FilterTab_init_def)
  ultimately show ?thesis using run by auto
qed

section \<open>Find Peaks (C10)\<close>

lemma np_take_ok: "\<forall>i \<in> set idx. i < length xs \<Longrightarrow> np_take xs idx = Inr (map (\<lambda>i. xs ! i) idx)"
  by (simp add: np_take_def list_all_iff)

lemma argsort_contract_indices:
  assumes "argsort_contract argsort"
  shows "set (argsort xs) = {0..<length xs}" "length (argsort xs) = length xs"
proof -
  from assms have m: "mset (argsort xs) = mset [0..<length xs]"
    by (simp add: argsort_contract_def)
  from m have "set_mset (mset (argsort xs)) = set_mset (mset [0..<length xs])" by simp
  then show "set (argsort xs) = {0..<length xs}" by simp
  from m have "size (mset (argsort xs)) = size (mset [0..<length xs])" by simp
  then show "length (argsort xs) = length xs" by simp
qed

lemma take5_if: "length xs = length ys \<Longrightarrow> (if length xs > 5 then take 5 ys else ys) = take 5 ys"
  by simp

lemma insertion_argsort_contract: "argsort_contract insertion_argsort"
  by (simp add: argsort_contract_def insertion_argsort_def)

lemma plateau_end_bounds:
  assumes "i < length x - 1"
  shows "i < plateau_end x i" "plateau_end x i \<le> length x - 1"
proof -
  have "length (takeWhile (\<lambda>k. x ! k = x ! i) [i + 1..<length x - 1]) \<le> length [i + 1..<length x - 1]"
    by (rule length_takeWhile_le)
  with assms show "i < plateau_end x i" "plateau_end x i \<le> length x - 1"
    by (simp_all add: plateau_end_def)
qed

lemma local_maxima_1d_in_frame: "m \<in> set (local_maxima_1d x) \<Longrightarrow> m < length x"
proof -
  assume "m \<in> set (local_maxima_1d x)"
  then obtain i where i: "1 \<le> i" "i < length x - 1" and m: "m = (i + (plateau_end x i - 1)) div 2"
    by (auto simp: local_maxima_1d_def)
  from plateau_end_bounds[OF i(2)] m i show ?thesis by linarith
qed

lemma signal_find_peaks_contract: "find_peaks_contract signal_find_peaks"
proof -
  have "i < length x \<and> h \<le> x ! i" if "i \<in> set (signal_find_peaks x h d)" for x h d i
  proof -
    let ?peaks = "filter (\<lambda>m. h \<le> x ! m) (local_maxima_1d x)"
    from that obtain k where "k < length ?peaks" "i = ?peaks ! k"
      by (auto simp: signal_find_peaks_def Let_def)
    then have "i \<in> set ?peaks" by (metis nth_mem)
    then show ?thesis using local_maxima_1d_in_frame by auto
  qed
  then show ?thesis unfolding find_peaks_contract_def by blast
qed

lemma sorted_wrt_take_drop:
  assumes "sorted_wrt P xs" and "a \<in> set (take n xs)" and "b \<in> set (drop n xs)"
  shows "P a b"
proof -
  have "sorted_wrt P (take n xs @ drop n xs)" using assms(1) by simp
  then show ?thesis using assms(2,3) unfolding sorted_wrt_append by blast
qed

text \<open>
  C10.  Let \<open>idx\<close> be the clicked index, \<open>0 \<le> idx < len(data_global)\<close>, with one
  frequency per bin of the frame and the results box built.  Then \<open>on_find_peaks\<close>
  returns and leaves the data unchanged.  If \<^verbatim>\<open>find_peaks\<close> returned no peak, it reports
  that no peaks were found; it does so whenever no bin reaches \<open>fft_min_val + 10\<close>.
  Otherwise it shows a list of at least one and at most five (frequency, amplitude)
  pairs, in non-increasing order of amplitude, each of them a bin of the frame at
  \<open>idx\<close> whose amplitude reaches \<open>fft_min_val + 10\<close>.  The list is that of the strongest
  peaks returned: there is an arrangement \<open>order\<close> of all the peaks that \<^verbatim>\<open>find_peaks\<close>
  returned, in non-increasing order of amplitude, of which the list shows the first
  five (all of them when there are fewer), so that no peak left out is stronger than
  one shown.  The two library functions are any that meet their contracts.
\<close>

theorem on_find_peaks_top_five:
  assumes fp: "find_peaks_contract find_peaks" and srt: "argsort_contract argsort"
    and fr: "freqs_global st = Some freqs" and dat: "data_global st = Some data"
    and clk: "spec_click_line st = Some (x0 # xrest)" and idx: "idx = py_int x0"
    and rng: "0 \<le> idx" "idx < int (length data)"
    and bins: "length (data ! nat idx) \<le> length freqs"
    and rtx: "results_text t \<noteq> None"
    and run: "on_find_peaks find_peaks argsort (t, st) = (err, t', st')"
  shows "err = None \<and> data_global st' = data_global st \<and>
         ((\<exists>ps. results_text t' = Some (Top_peaks ps) \<and> ps \<noteq> [] \<and> length ps \<le> 5 \<and>
                sorted_wrt (\<lambda>a b. a \<ge> b) (map snd ps) \<and>
                (\<forall>(f, a) \<in> set ps. of_int (fft_min_val t + 10) \<le> a \<and>
                   (\<exists>i < length (data ! nat idx). f = freqs ! i \<and> a = data ! nat idx ! i)) \<and>
                (\<exists>order.
                   mset order = mset (find_peaks (data ! nat idx) (of_int (fft_min_val t + 10)) 5) \<and>
                   sorted_wrt (\<lambda>p q. data ! nat idx ! p \<ge> data ! nat idx ! q) order \<and>
                   ps = map (\<lambda>p. (freqs ! p, data ! nat idx ! p)) (take 5 order) \<and>
                   (\<forall>q \<in> set (drop 5 order). \<forall>p \<in> set (take 5 order).
                      data ! nat idx ! q \<le> data ! nat idx ! p)))
          \<or> (results_text t' = Some No_peaks_found_above_threshold \<and>
              find_peaks (data ! nat idx) (of_int (fft_min_val t + 10)) 5 = [])) \<and>
         ((\<forall>i < length (data ! nat idx). data ! nat idx ! i < of_int (fft_min_val t + 10)) \<longrightarrow>
            results_text t' = Some No_peaks_found_above_threshold)"
proof -
  let ?frame = "data ! nat idx"
  let ?thr = "real_of_int (fft_min_val t) + 10"
  let ?peaks = "find_peaks ?frame ?thr 5"
  let ?pf = "map (\<lambda>i. freqs ! i) ?peaks"
  let ?amps = "map (\<lambda>i. ?frame ! i) ?peaks"
  let ?sidx = "rev (argsort ?amps)"
  let ?ps = "take 5 (map (\<lambda>k. (?pf ! k, ?amps ! k)) ?sidx)"
  let ?order = "map (\<lambda>k. ?peaks ! k) ?sidx"
  obtain old where old: "results_text t = Some old" using rtx by auto
  have pk: "\<And>i. i \<in> set ?peaks \<Longrightarrow> i < length ?frame \<and> ?thr \<le> ?frame ! i"
    using fp unfolding find_peaks_contract_def by blast
  have t1: "np_take freqs ?peaks = Inr ?pf"
    using pk bins by (intro np_take_ok) force
  have t2: "np_take ?frame ?peaks = Inr ?amps"
    using pk by (intro np_take_ok) auto
  have sset: "set ?sidx = {0..<length ?peaks}" and slen: "length ?sidx = length ?peaks"
    using argsort_contract_indices[OF srt, of ?amps] by simp_all
  have t3: "np_take ?pf ?sidx = Inr (map (\<lambda>k. ?pf ! k) ?sidx)"
    using sset by (intro np_take_ok) simp
  have t4: "np_take ?amps ?sidx = Inr (map (\<lambda>k. ?amps ! k) ?sidx)"
    using sset by (intro np_take_ok) simp
  have zip_eq: "zip (take 5 (map (\<lambda>k. ?pf ! k) ?sidx)) (take 5 (map (\<lambda>k. ?amps ! k) ?sidx)) = ?ps"
    by (simp add: take_zip[symmetric] zip_map_map zip_same_conv_map comp_def)
  have g0: "py_getitem (x0 # xrest) 0 = Inr x0" by (simp add: py_getitem_def)
  have res: "(err, t', st') =
     (if ?peaks \<noteq> [] then
        (None, t\<lparr>results_text := Some (Top_peaks ?ps)\<rparr>,
         add_log_entry [Lit ''Found '', Dec (int (length (take 5 (map (\<lambda>k. ?pf ! k) ?sidx)))),
                        Lit '' peaks in FFT data''] st)
      else (None, t\<lparr>results_text := Some No_peaks_found_above_threshold\<rparr>,
            add_log_entry [Lit ''No peaks found in FFT data''] st))"
    using rng unfolding run[symmetric] on_find_peaks_def
    by (simp only: prod.case fr dat clk g0 idx[symmetric] Let_def option.case sum.case
        of_int_add of_int_numeral t1 t2 t3 t4 old zip_eq take5_if length_map
        length_greater_0_conv if_True if_False simp_thms)
  have desc: "sorted_wrt (\<lambda>a b. a \<ge> b) (map (\<lambda>k. ?amps ! k) ?sidx)"
  proof -
    have "sorted (map (\<lambda>i. ?amps ! i) (argsort ?amps))"
      using srt unfolding argsort_contract_def by blast
    then show ?thesis by (simp add: rev_map[symmetric] sorted_wrt_rev)
  qed
  have sorted_amps: "sorted_wrt (\<lambda>a b. a \<ge> b) (map snd ?ps)"
  proof -
    from desc have "sorted_wrt (\<lambda>a b. a \<ge> b) (take 5 (map (\<lambda>k. ?amps ! k) ?sidx))"
      by (rule sorted_wrt_take)
    moreover have "map snd ?ps = take 5 (map (\<lambda>k. ?amps ! k) ?sidx)"
      by (simp add: take_map comp_def)
    ultimately show ?thesis by simp
  qed
  have elems: "\<forall>(f, a) \<in> set ?ps. ?thr \<le> a \<and> (\<exists>i < length ?frame. f = freqs ! i \<and> a = ?frame ! i)"
  proof clarify
    fix f a assume "(f, a) \<in> set ?ps"
    then have "(f, a) \<in> set (map (\<lambda>k. (?pf ! k, ?amps ! k)) ?sidx)"
      by (rule in_set_takeD)
    then obtain k where k: "k \<in> set ?sidx" "f = ?pf ! k" "a = ?amps ! k" by auto
    then have kl: "k < length ?peaks" using sset by simp
    then have "?peaks ! k \<in> set ?peaks" by simp
    with pk have "?peaks ! k < length ?frame" "?thr \<le> ?frame ! (?peaks ! k)" by blast+
    moreover have "f = freqs ! (?peaks ! k)" "a = ?frame ! (?peaks ! k)"
      using k kl by simp_all
    ultimately show "?thr \<le> a \<and> (\<exists>i < length ?frame. f = freqs ! i \<and> a = ?frame ! i)" by blast
  qed
  have perm: "mset ?order = mset ?peaks"
  proof -
    have "mset ?sidx = mset [0..<length ?peaks]"
      using srt unfolding argsort_contract_def by (simp del: mset_upt)
    then have "mset ?order = mset (map (\<lambda>k. ?peaks ! k) [0..<length ?peaks])"
      by (simp only: mset_map)
    then show ?thesis by (simp only: map_nth)
  qed
  have amps_order: "map (\<lambda>p. ?frame ! p) ?order = map (\<lambda>k. ?amps ! k) ?sidx"
    using sset by (simp add: comp_def)
  have order_desc: "sorted_wrt (\<lambda>p q. ?frame ! p \<ge> ?frame ! q) ?order"
    using desc unfolding amps_order[symmetric] sorted_wrt_map .
  have shown: "?ps = map (\<lambda>p. (freqs ! p, ?frame ! p)) (take 5 ?order)"
  proof -
    have "map (\<lambda>k. (?pf ! k, ?amps ! k)) ?sidx = map (\<lambda>p. (freqs ! p, ?frame ! p)) ?order"
      using sset by (simp add: comp_def)
    then show ?thesis by (simp only: take_map)
  qed
  have strongest: "\<forall>q \<in> set (drop 5 ?order). \<forall>p \<in> set (take 5 ?order). ?frame ! q \<le> ?frame ! p"
    using sorted_wrt_take_drop[OF order_desc] by blast
  have ne: "?peaks \<noteq> [] \<Longrightarrow> ?ps \<noteq> []"
    using slen by (cases ?sidx) auto
  have len5: "length ?ps \<le> 5" by simp
  have none: "(\<forall>i < length ?frame. ?frame ! i < ?thr) \<Longrightarrow> ?peaks = []"
  proof (rule ccontr)
    assume a: "\<forall>i < length ?frame. ?frame ! i < ?thr" and "?peaks \<noteq> []"
    then obtain p where "p \<in> set ?peaks" by (cases ?peaks) auto
    with pk have "p < length ?frame" "?thr \<le> ?frame ! p" by blast+
    with a show False by force
  qed
  show ?thesis
  proof (cases "?peaks = []")
    case True
    with res show ?thesis
      by (simp add: add_log_entry_def)
  next
    case False
    from False res have r: "err = None" "t' = t\<lparr>results_text := Some (Top_peaks ?ps)\<rparr>"
      "data_global st' = data_global st"
      by (simp_all add: add_log_entry_def)
    have arranged: "\<exists>order.
           mset order = mset (find_peaks (data ! nat idx) (of_int (fft_min_val t + 10)) 5) \<and>
           sorted_wrt (\<lambda>p q. data ! nat idx ! p \<ge> data ! nat idx ! q) order \<and>
           ?ps = map (\<lambda>p. (freqs ! p, data ! nat idx ! p)) (take 5 order) \<and>
           (\<forall>q \<in> set (drop 5 order). \<forall>p \<in> set (take 5 order).
              data ! nat idx ! q \<le> data ! nat idx ! p)"
      apply (rule exI[of _ ?order])
      using perm order_desc shown strongest by simp
    have "\<exists>ps. results_text t' = Some (Top_peaks ps) \<and> ps \<noteq> [] \<and> length ps \<le> 5 \<and>
                sorted_wrt (\<lambda>a b. a \<ge> b) (map snd ps) \<and>
                (\<forall>(f, a) \<in> set ps. of_int (fft_min_val t + 10) \<le> a \<and>
                   (\<exists>i < length (data ! nat idx). f = freqs ! i \<and> a = data ! nat idx ! i)) \<and>
                (\<exists>order.
                   mset order = mset (find_peaks (data ! nat idx) (of_int (fft_min_val t + 10)) 5) \<and>
                   sorted_wrt (\<lambda>p q. data ! nat idx ! p \<ge> data ! nat idx ! q) order \<and>
                   ps = map (\<lambda>p. (freqs ! p, data ! nat idx ! p)) (take 5 order) \<and>
                   (\<forall>q \<in> set (drop 5 order). \<forall>p \<in> set (take 5 order).
                      data ! nat idx ! q \<le> data ! nat idx ! p))"
      apply (rule exI[of _ ?ps])
      using r(2) ne[OF False] len5 sorted_amps elems arranged by simp
    moreover have "\<not> (\<forall>i < length ?frame. ?frame ! i < of_int (fft_min_val t + 10))"
      using none False by auto
    ultimately show ?thesis using r(1,3) by blast
  qed
qed

lemma six_peaks_found:
  "signal_find_peaks six_peak_frame 10 5 = [3, 9, 15, 21, 27, 33]"
  by code_simp

lemma six_peak_run:
  "on_find_peaks signal_find_peaks insertion_argsort (AnalysisTab_built, six_peak_state) =
    (None,
     AnalysisTab_built\<lparr>results_text :=
        Some (Top_peaks [(2700, 60), (1500, 50), (300, 50), (2100, 30), (900, 20)])\<rparr>,
     six_peak_state\<lparr>log_entries := [[Lit ''Found '', Dec 5, Lit '' peaks in FFT data'']]\<rparr>)"
  by code_simp

theorem on_find_peaks_top_five_witness:
  "find_peaks_contract signal_find_peaks \<and> argsort_contract insertion_argsort \<and>
   signal_find_peaks six_peak_frame 10 5 = [3, 9, 15, 21, 27, 33] \<and>
   (\<exists>err t' st'.
      on_find_peaks signal_find_peaks insertion_argsort (AnalysisTab_built, six_peak_state)
        = (err, t', st') \<and>
      err = None \<and> data_global st' = data_global six_peak_state \<and>
      results_text t' =
        Some (Top_peaks [(2700, 60), (1500, 50), (300, 50), (2100, 30), (900, 20)]))"
proof -
  have "None = (None :: exn option) \<and>
        data_global (six_peak_state\<lparr>log_entries :=
          [[Lit ''Found '', Dec 5, Lit '' peaks in FFT data'']]\<rparr>) = data_global six_peak_state"
    using on_find_peaks_top_five[OF signal_find_peaks_contract insertion_argsort_contract
        _ _ _ _ _ _ _ _ six_peak_run, of "map (\<lambda>i. 100 * real i) [0..<36]"
        "[six_peak_frame]" "2 / 5" "[]" 0]
    by (simp add: six_peak_state_def six_peak_frame_def AnalysisTab_built_def
        AnalysisTab_init_def py_int_def)
  with six_peak_run six_peaks_found signal_find_peaks_contract insertion_argsort_contract
  show ?thesis by simp
qed

section \<open>Annotations (C7)\<close>

lemma update_annotations_display_annotations:
  "update_annotations_display t = (e, t') \<Longrightarrow> annotations t' = annotations t"
  by (auto simp: update_annotations_display_def Let_def split: if_splits option.splits)

lemma highlight_annotation_annotations:
  "highlight_annotation a t = (e, t') \<Longrightarrow> annotations t' = annotations t"
  by (auto simp: highlight_annotation_def Let_def split: option.splits)

lemma py_getitem_from_back:
  "- int (length xs) \<le> i \<Longrightarrow> i < int (length xs) \<Longrightarrow> \<exists>x. py_getitem xs i = Inr x"
  by (simp add: py_getitem_def)

text \<open>
  C7.  When \<open>selected_range\<close> is \<open>None\<close> the annotations list is unchanged.  When it
  is a pair \<open>(start, end)\<close> of frame indices, \<open>on_add_annotation\<close> appends exactly one
  annotation with \<open>range = (start, end)\<close>, \<open>classification = "General"\<close>,
  \<open>comment = ""\<close> and \<open>id\<close> the previous number of annotations plus one.  Frame indices
  count from zero; what the proof needs of them is less, namely that the lookup of the
  two time labels stays inside the list: an index below \<open>len(time_labels_all)\<close> is
  not below \<open>-len(time_labels_all)\<close>.  The append precedes the display updates, so it
  happens whether or not those return.
\<close>

theorem on_add_annotation_appends:
  assumes run: "on_add_annotation now (t, st) = (err, t', st')"
  shows "(case selected_range st of
            None \<Rightarrow> annotations t' = annotations t
          | Some (start, end) \<Rightarrow>
              (\<forall>labels. time_labels_all st = Some labels \<and>
                        start < int (length labels) \<and> end < int (length labels) \<longrightarrow>
                        - int (length labels) \<le> start \<and> - int (length labels) \<le> end) \<longrightarrow>
              (\<exists>a. annotations t' = annotations t @ [a] \<and> ann_range a = (start, end) \<and>
                   ann_classification a = ''General'' \<and> ann_comment a = [] \<and>
                   ann_id a = int (length (annotations t)) + 1))"
proof (cases "selected_range st")
  case None
  with run show ?thesis by (simp add: on_add_annotation_def)
next
  case (Some r)
  obtain start "end" where r: "r = (start, end)" by (cases r)
  {
    assume ok: "\<forall>labels. time_labels_all st = Some labels \<and>
                        start < int (length labels) \<and> end < int (length labels) \<longrightarrow>
                        - int (length labels) \<le> start \<and> - int (length labels) \<le> end"
    have "\<exists>a. annotations t' = annotations t @ [a] \<and> ann_range a = (start, end) \<and>
                   ann_classification a = ''General'' \<and> ann_comment a = [] \<and>
                   ann_id a = int (length (annotations t)) + 1"
    proof (cases "time_labels_all st")
      case None
      with run Some r show ?thesis
        by (auto simp: on_add_annotation_def Let_def split: prod.splits option.splits
            dest!: update_annotations_display_annotations highlight_annotation_annotations)
    next
      case (Some labels)
      show ?thesis
      proof (cases "start < int (length labels) \<and> end < int (length labels)")
        case True
        with ok Some have "- int (length labels) \<le> start" "- int (length labels) \<le> end" by auto
        with True obtain x y where "py_getitem labels start = Inr x" "py_getitem labels end = Inr y"
          using py_getitem_from_back by blast
        with True run \<open>selected_range st = Some r\<close> r Some show ?thesis
          by (auto simp: on_add_annotation_def Let_def split: prod.splits option.splits
              dest!: update_annotations_display_annotations highlight_annotation_annotations)
      next
        case False
        with run \<open>selected_range st = Some r\<close> r Some show ?thesis
          by (auto simp: on_add_annotation_def Let_def split: prod.splits option.splits
              dest!: update_annotations_display_annotations highlight_annotation_annotations)
      qed
    qed
  }
  with Some r show ?thesis by simp
qed

theorem on_add_annotation_appends_witness:
  "\<exists>t' st' a.
     on_add_annotation ''2025-01-01 12:00:00'' (AnnotationsTab_built, example_state) = (None, t', st') \<and>
     selected_range example_state = Some (0, 1) \<and>
     annotations t' = annotations AnnotationsTab_built @ [a] \<and> ann_range a = (0, 1) \<and>
     ann_classification a = ''General'' \<and> ann_comment a = [] \<and>
     ann_id a = int (length (annotations AnnotationsTab_built)) + 1 \<and>
     annotations AnnotationsTab_built = [] \<and>
     ann_time_range a = Some [Lit ''12:00:00'', Lit '' - '', Lit ''12:00:01'']"
proof -
  obtain err t' st' where
    run: "on_add_annotation ''2025-01-01 12:00:00'' (AnnotationsTab_built, example_state) = (err, t', st')"
    by (metis prod_cases3)
  have sel: "selected_range example_state = Some (0, 1)" by (simp add: example_state_def)
  have "\<exists>a. annotations t' = annotations AnnotationsTab_built @ [a] \<and> ann_range a = (0, 1) \<and>
                   ann_classification a = ''General'' \<and> ann_comment a = [] \<and>
                   ann_id a = int (length (annotations AnnotationsTab_built)) + 1"
    using on_add_annotation_appends[OF run] sel by (simp add: example_state_def)
  then obtain a where a: "annotations t' = annotations AnnotationsTab_built @ [a]" "ann_range a = (0, 1)"
     "ann_classification a = ''General''" "ann_comment a = []"
     "ann_id a = int (length (annotations AnnotationsTab_built)) + 1" by blast
  have "err = None \<and>
        ann_time_range (last (annotations t')) = Some [Lit ''12:00:00'', Lit '' - '', Lit ''12:00:01'']"
    using run by (auto simp: on_add_annotation_def example_state_def AnnotationsTab_built_def
        AnnotationsTab_init_def py_getitem_def Let_def update_annotations_display_def
        highlight_annotation_def)
  moreover have "annotations AnnotationsTab_built = []"
    by (simp add: AnnotationsTab_built_def AnnotationsTab_init_def)
  ultimately show ?thesis using a run sel by auto
qed


section \<open>Tabs are mutually exclusive (C1)\<close>

lemma build_Analysis:
  "fst (build (tab_init AnalysisTab)) = None"
  "members (snd (build (tab_init AnalysisTab))) = Analysis_members AnalysisTab_built"
  by code_simp+

lemma build_Filter:
  "fst (build (tab_init FilterTab)) = None"
  "members (snd (build (tab_init FilterTab))) = Filter_members FilterTab_built"
  by code_simp+

lemma build_Export:
  "fst (build (tab_init ExportTab)) = None"
  "members (snd (build (tab_init ExportTab))) = Export_members ExportTab_built"
  by code_simp+

lemma build_Annotations:
  "fst (build (tab_init AnnotationsTab)) = Some TypeError"
  "members (snd (build (tab_init AnnotationsTab))) = Annotations_members AnnotationsTab_init"
  by code_simp+

lemma build_Annotations_attrs:
  "attrs (snd (build (tab_init AnnotationsTab))) =
     [''fig'', ''parent_ax'', ''annotations'', ''current_annotation'', ''create_section'']"
  by code_simp

lemma add_tab_returns:
  assumes "c \<noteq> AnnotationsTab"
  shows "add_tab name c m =
     (None, m\<lparr>tabs := AList.update name (hide (snd (build (tab_init c)))) (tabs m)\<rparr>)"
proof -
  have "fst (build (tab_init c)) = None"
    using assms build_Analysis(1) build_Filter(1) build_Export(1) by (cases c) simp_all
  then obtain t where b: "build (tab_init c) = (None, t)"
    by (metis prod.collapse)
  show ?thesis
    by (simp add: add_tab_def Let_def b)
qed

lemma add_tab_Annotations:
  "add_tab name AnnotationsTab m =
     (Some TypeError,
      m\<lparr>tabs := AList.update name (snd (build (tab_init AnnotationsTab))) (tabs m)\<rparr>)"
proof -
  obtain t where b: "build (tab_init AnnotationsTab) = (Some TypeError, t)"
    using build_Annotations(1) by (metis prod.collapse)
  show ?thesis
    by (simp add: add_tab_def Let_def b)
qed

lemma hide_props [simp]:
  "visible (hide t) = False" "members (hide t) = members t"
  by (simp_all add: hide_def on_hide_def set_axes_visible_def)

lemma on_show_visible [simp]: "visible (snd (on_show argsort dict_eq st t)) = visible t"
  by (simp add: on_show_def split: tab_members.splits prod.splits)

lemma show_tab_visible [simp]: "visible (snd (show_tab argsort dict_eq st t))"
  by (simp add: show_tab_def)


lemma in_update:
  "distinct (map fst al) \<Longrightarrow> (n, t) \<in> set (AList.update k v al) \<Longrightarrow>
     (n = k \<and> t = v) \<or> ((n, t) \<in> set al \<and> n \<noteq> k)"
  by (induction al) (auto split: if_splits intro: rev_image_eqI)

lemma update_keeps_key:
  "map_of al k = Some v \<Longrightarrow> map fst (AList.update k v' al) = map fst al"
  by (induction al) (auto split: if_splits)

lemma set_button_colors_fields [simp]:
  "tabs (set_button_colors n c m) = tabs m" "active_tab (set_button_colors n c m) = active_tab m"
  by (simp_all add: set_button_colors_def)

lemma create_tab_buttons_fields [simp]:
  "tabs (create_tab_buttons m) = tabs m" "active_tab (create_tab_buttons m) = active_tab m"
  by (simp_all add: create_tab_buttons_def)

text \<open>
  On the path without an exception the code keeps the tabs exclusive: a call of
  \<^verbatim>\<open>switch_to_tab\<close> that returns preserves \<open>manager_inv\<close>, which implies the property.
\<close>

lemma switch_to_tab_inv:
  assumes inv: "manager_inv m"
    and run: "switch_to_tab argsort dict_eq name (m, st) = (None, m', st')"
  shows "manager_inv m'"
proof (cases "map_of (tabs m) name")
  case None
  with inv run show ?thesis by (simp add: switch_to_tab_def)
next
  case (Some new_tab)
  define m1 where "m1 =
    (case active_tab m of
       None \<Rightarrow> m
     | Some active \<Rightarrow>
         (case (if active \<noteq> [] then map_of (tabs m) active else None) of
            None \<Rightarrow> m
          | Some old_tab \<Rightarrow>
              set_button_colors active (''#1E1E1E'', ''#2A2A2A'')
                (m\<lparr>tabs := AList.update active (hide old_tab) (tabs m)\<rparr>)))"
  have d: "distinct (map fst (tabs m))" using inv by (simp add: manager_inv_def)
  have keys: "map fst (tabs m1) = map fst (tabs m)"
    by (auto simp: m1_def update_keeps_key split: option.splits if_splits)
  have d1: "distinct (map fst (tabs m1))" using d keys by simp
  have hidden: "\<And>n u. (n, u) \<in> set (tabs m1) \<Longrightarrow> n \<noteq> [] \<and> \<not> visible u"
  proof -
    fix n u assume nu: "(n, u) \<in> set (tabs m1)"
    show "n \<noteq> [] \<and> \<not> visible u"
    proof (cases "active_tab m")
      case None
      with nu inv show ?thesis by (auto simp: m1_def manager_inv_def)
    next
      case (Some active)
      show ?thesis
      proof (cases "if active \<noteq> [] then map_of (tabs m) active else None")
        case None
        then have "\<And>u'. (active, u') \<in> set (tabs m) \<Longrightarrow> active = []"
          using d by (auto split: if_splits)
        with nu inv Some None show ?thesis
          by (auto simp: m1_def manager_inv_def)
      next
        case (Some old_tab)
        with nu \<open>active_tab m = Some active\<close>
        have "(n = active \<and> u = hide old_tab) \<or> ((n, u) \<in> set (tabs m) \<and> n \<noteq> active)"
          using d by (auto simp: m1_def dest!: in_update[rotated])
        moreover from Some have "(active, old_tab) \<in> set (tabs m)"
          by (auto split: if_splits dest: map_of_SomeD)
        ultimately show ?thesis
          using inv \<open>active_tab m = Some active\<close> by (auto simp: manager_inv_def)
      qed
    qed
  qed
  from Some have "name \<in> fst ` set (tabs m)" by (auto dest: map_of_SomeD intro: rev_image_eqI)
  then have "name \<in> fst ` set (tabs m1)" using keys by (metis set_map)
  then obtain nt where nt: "map_of (tabs m1) name = Some nt"
    by (metis map_of_eq_None_iff not_Some_eq)
  then have nt_in: "(name, nt) \<in> set (tabs m1)" by (rule map_of_SomeD)
  with hidden have "name \<noteq> []" by blast
  obtain e shown where sh: "show_tab argsort dict_eq st nt = (e, shown)"
    by (cases "show_tab argsort dict_eq st nt")
  define m2 where "m2 = set_button_colors name (''#3A3A3A'', ''#444444'')
     (m1\<lparr>tabs := AList.update name shown (tabs m1), active_tab := Some name\<rparr>)"
  have e: "e = None"
    using run Some nt sh
    by (cases e) (simp_all add: switch_to_tab_def m1_def[symmetric] Let_def)
  have res: "switch_to_tab argsort dict_eq name (m, st) =
     (None, m2, add_log_entry [Lit ''Switched to '', Lit name, Lit '' tab''] st)"
    using Some nt sh e
    by (simp add: switch_to_tab_def m1_def[symmetric] m2_def Let_def)
  have "manager_inv m2"
    unfolding manager_inv_def
  proof (intro conjI allI impI)
    show "distinct (map fst (tabs m2))" using d1 by (simp add: m2_def distinct_update)
  next
    fix n u assume "(n, u) \<in> set (tabs m2)"
    then have c: "(n = name \<and> u = shown) \<or> ((n, u) \<in> set (tabs m1) \<and> n \<noteq> name)"
      using d1 by (auto simp: m2_def dest!: in_update[rotated])
    with hidden \<open>name \<noteq> []\<close> show "n \<noteq> []" by blast
    assume "visible u"
    with c hidden have "n = name" by blast
    then show "active_tab m2 = Some n" by (simp add: m2_def)
  qed
  with res run show ?thesis by simp
qed

text \<open>
  On the path with an exception it does not: a call of \<^verbatim>\<open>switch_to_tab\<close> that raises,
  on a tab other than the active one, leaves that tab visible and not active.
\<close>

lemma raising_switch_to_tab:
  assumes other: "active_tab m \<noteq> Some name"
    and run: "switch_to_tab argsort dict_eq name (m, st) = (Some e, m', st')"
  shows "name \<in> set (visible_tabs m') \<and> active_tab m' \<noteq> Some name \<and> \<not> mutually_exclusive m'"
proof (cases "map_of (tabs m) name")
  case None
  with run show ?thesis by (simp add: switch_to_tab_def)
next
  case (Some new_tab)
  define m1 where "m1 =
    (case active_tab m of
       None \<Rightarrow> m
     | Some active \<Rightarrow>
         (case (if active \<noteq> [] then map_of (tabs m) active else None) of
            None \<Rightarrow> m
          | Some old_tab \<Rightarrow>
              set_button_colors active (''#1E1E1E'', ''#2A2A2A'')
                (m\<lparr>tabs := AList.update active (hide old_tab) (tabs m)\<rparr>)))"
  have keys: "map fst (tabs m1) = map fst (tabs m)"
    by (auto simp: m1_def update_keeps_key split: option.splits if_splits)
  have act1: "active_tab m1 = active_tab m"
    by (auto simp: m1_def split: option.splits if_splits)
  from Some have "name \<in> fst ` set (tabs m)" by (auto dest: map_of_SomeD intro: rev_image_eqI)
  then have "name \<in> fst ` set (tabs m1)" using keys by (metis set_map)
  then obtain nt where nt: "map_of (tabs m1) name = Some nt"
    by (metis map_of_eq_None_iff not_Some_eq)
  obtain e1 shown where sh: "show_tab argsort dict_eq st nt = (e1, shown)"
    by (cases "show_tab argsort dict_eq st nt")
  have vis: "visible shown" using show_tab_visible[of argsort dict_eq st nt] sh by simp
  have m': "m' = m1\<lparr>tabs := AList.update name shown (tabs m1)\<rparr>"
    using run Some nt sh
    by (cases e1) (simp_all add: switch_to_tab_def m1_def[symmetric] Let_def)
  have "map_of (tabs m') name = Some shown" by (simp add: m' update_conv')
  then have "(name, shown) \<in> set (tabs m')" by (rule map_of_SomeD)
  with vis have v: "name \<in> set (visible_tabs m')"
    by (force simp: visible_tabs_def)
  have a: "active_tab m' \<noteq> Some name" using other by (simp add: m' act1)
  from v a have "\<not> mutually_exclusive m'"
    by (auto simp: mutually_exclusive_def list_all_iff)
  with v a show ?thesis by simp
qed

lemma all_same_distinct:
  assumes "distinct xs" "\<forall>x \<in> set xs. x = a"
  shows "length xs \<le> 1"
proof (cases xs)
  case Nil
  then show ?thesis by simp
next
  case (Cons y ys)
  with assms have "ys = []" by (cases ys) auto
  with Cons show ?thesis by simp
qed

lemma manager_inv_exclusive:
  assumes "manager_inv m"
  shows "mutually_exclusive m"
proof -
  have d: "distinct (visible_tabs m)"
    using assms unfolding visible_tabs_def manager_inv_def
    by (simp add: distinct_map_filter)
  have a: "\<forall>n \<in> set (visible_tabs m). active_tab m = Some n"
    using assms unfolding visible_tabs_def manager_inv_def by auto
  have "length (visible_tabs m) \<le> 1"
  proof (cases "active_tab m")
    case None
    with a have "visible_tabs m = []" by (cases "visible_tabs m") auto
    then show ?thesis by simp
  next
    case (Some x)
    with a have "\<forall>n \<in> set (visible_tabs m). n = x" by auto
    with d show ?thesis by (rule all_same_distinct)
  qed
  with a show ?thesis by (simp add: mutually_exclusive_def list_all_iff)
qed




section \<open>The layout (C2)\<close>

text \<open>
  C2 fails on the code.  \<^verbatim>\<open>AnnotationsTab.build\<close> stores the first section in
  \<^verbatim>\<open>self.create_section\<close>, which hides the method of that name, and its second statement
  calls the stored \<^verbatim>\<open>Axes\<close> object.  For every module state \<^verbatim>\<open>create_modern_layout\<close> ends
  with \<^verbatim>\<open>TypeError\<close> in the third \<^verbatim>\<open>add_tab\<close>: the dictionary then holds \<^verbatim>\<open>analysis\<close>,
  \<^verbatim>\<open>filter\<close> and the half-built \<^verbatim>\<open>annotations\<close> tab, \<^verbatim>\<open>export\<close> was never added, no tab
  button exists and no tab is active.
\<close>

theorem create_modern_layout_raises:
  "fst (create_modern_layout argsort dict_eq st) = Some TypeError \<and>
   map fst (tabs (fst (snd (create_modern_layout argsort dict_eq st)))) =
     [''analysis'', ''filter'', ''annotations''] \<and>
   map_of (tabs (fst (snd (create_modern_layout argsort dict_eq st)))) ''export'' = None \<and>
   attrs (the (map_of (tabs (fst (snd (create_modern_layout argsort dict_eq st)))) ''annotations'')) =
     [''fig'', ''parent_ax'', ''annotations'', ''current_annotation'', ''create_section''] \<and>
   active_tab (fst (snd (create_modern_layout argsort dict_eq st))) = None \<and>
   tab_buttons (fst (snd (create_modern_layout argsort dict_eq st))) = []"
  by (simp add: create_modern_layout_def Let_def add_tab_returns add_tab_Annotations
      TabManager_init_def build_Annotations_attrs)


section \<open>Project save and load (C5, C6)\<close>

lemma marker_freqs_loop_result:
  "marker_freqs_loop markers acc = Inr r \<Longrightarrow>
     \<exists>freqs. r = acc @ freqs \<and> map marker_freq markers = map Inr freqs"
proof (induction markers arbitrary: acc)
  case Nil
  then show ?case by simp
next
  case (Cons m markers)
  then obtain f where f: "marker_freq m = Inr f" and
    rest: "marker_freqs_loop markers (acc @ [f]) = Inr r"
    by (auto split: sum.splits)
  from Cons.IH[OF rest] obtain freqs where "r = (acc @ [f]) @ freqs"
    "map marker_freq markers = map Inr freqs" by blast
  with f show ?case by (intro exI[of _ "f # freqs"]) simp
qed

lemma and_then_Inr: "and_then r f = Inr y \<Longrightarrow> \<exists>x. r = Inr x \<and> f x = Inr y"
  by (cases r) (simp_all add: and_then_def)

lemma read_global_Inr: "read_global g n = Inr v \<Longrightarrow> g n = Some v"
  by (simp add: read_global_def split: option.splits)

lemma make_state_dict_entries:
  assumes "make_state_dict globals = Inr d"
  shows "(\<exists>fp. globals ''file_paths'' = Some fp \<and> map_of d ''file_paths'' = Some fp) \<and>
         (\<exists>zs ze. globals ''time_zoom_start'' = Some zs \<and> globals ''time_zoom_end'' = Some ze \<and>
             map_of d ''time_zoom'' = Some (PTuple [zs, ze])) \<and>
         (\<exists>tz. globals ''current_timezone'' = Some tz \<and>
             map_of d ''current_timezone'' = Some (zone_or_UTC tz)) \<and>
         (\<exists>fm markers freqs. globals ''freq_markers'' = Some fm \<and> py_iter fm = Inr markers \<and>
             map marker_freq markers = map Inr freqs \<and>
             map_of d ''freq_markers'' = Some (PList freqs))"
proof -
  from assms obtain fp zs ze gs gain tz sl d1 fm markers mf where
    r: "read_global globals ''file_paths'' = Inr fp"
       "read_global globals ''time_zoom_start'' = Inr zs"
       "read_global globals ''time_zoom_end'' = Inr ze"
       "read_global globals ''current_timezone'' = Inr tz"
       "read_global globals ''freq_markers'' = Inr fm"
    and it: "py_iter fm = Inr markers" and lp: "marker_freqs_loop markers [] = Inr mf"
    and d1: "(if truthy sl then
                 and_then (get_xdata sl) (\<lambda>xdata.
                 and_then (py_getitem xdata 0) (\<lambda>x0.
                 Inr (AList.update ''click_index'' (PInt (py_int x0))
                   [(''file_paths'', fp), (''time_zoom'', PTuple [zs, ze]), (''gain'', gain),
                    (''current_timezone'', zone_or_UTC tz)])))
               else Inr [(''file_paths'', fp), (''time_zoom'', PTuple [zs, ze]), (''gain'', gain),
                    (''current_timezone'', zone_or_UTC tz)]) = Inr d1"
    and d: "d = AList.update ''freq_markers'' (PList mf) d1"
    unfolding make_state_dict_def Let_def
    by (elim and_then_Inr[elim_format] exE conjE) auto
  let ?d0 = "[(''file_paths'', fp), (''time_zoom'', PTuple [zs, ze]), (''gain'', gain),
                    (''current_timezone'', zone_or_UTC tz)]"
  have "d1 = ?d0 \<or> (\<exists>c. d1 = AList.update ''click_index'' c ?d0)"
    using d1 by (auto split: if_splits dest!: and_then_Inr)
  then have m: "map_of d1 ''file_paths'' = Some fp" "map_of d1 ''time_zoom'' = Some (PTuple [zs, ze])"
     "map_of d1 ''current_timezone'' = Some (zone_or_UTC tz)"
    by (auto simp: update_conv')
  from marker_freqs_loop_result[OF lp] have fr: "map marker_freq markers = map Inr mf" by simp
  show ?thesis
    using r[THEN read_global_Inr] it fr m by (simp add: d update_conv')
qed

lemma save_project_True:
  assumes "save_project dumps blank globals filepath w = (Inr True, w')"
  shows "\<exists>d bytes. make_state_dict globals = Inr d \<and> writable w filepath \<and>
           dumps (PDict d) = Inr bytes \<and>
           w' = w\<lparr>files := (files w)(filepath \<mapsto> bytes),
                  logging := logging w @ [Info [Lit ''Project saved to '', Lit filepath]]\<rparr>"
  using assms
  by (auto simp: save_project_def save_try_def Let_def split: sum.splits if_splits option.splits prod.splits)

text \<open>
  C5.  Let \<^verbatim>\<open>pickle.load\<close> read back what \<^verbatim>\<open>pickle.dump\<close> wrote.  If \<open>save_project\<close>
  returns \<^verbatim>\<open>True\<close>, then \<open>load_project\<close> of the same path returns a dictionary, not
  \<^verbatim>\<open>None\<close>, in which \<^verbatim>\<open>'file_paths'\<close> is the module's \<open>file_paths\<close> at save time,
  \<^verbatim>\<open>'time_zoom'\<close> is the pair of \<open>time_zoom_start\<close> and \<open>time_zoom_end\<close>,
  \<^verbatim>\<open>'current_timezone'\<close> is the zone name of \<open>current_timezone\<close> (or \<^verbatim>\<open>'UTC'\<close> for an
  object without one) and \<^verbatim>\<open>'freq_markers'\<close> is the list of the fourth items, the
  frequencies, of the markers in order.
\<close>

theorem save_load_round_trip:
  assumes pk: "pickle_contract dumps loads"
    and saved: "save_project dumps blank globals filepath w = (Inr True, w')"
  shows "\<exists>d w''. load_project loads filepath w' = (Inr (Some (PDict d)), w'') \<and>
         (\<exists>fp. globals ''file_paths'' = Some fp \<and> map_of d ''file_paths'' = Some fp) \<and>
         (\<exists>zs ze. globals ''time_zoom_start'' = Some zs \<and> globals ''time_zoom_end'' = Some ze \<and>
             map_of d ''time_zoom'' = Some (PTuple [zs, ze])) \<and>
         (\<exists>tz. globals ''current_timezone'' = Some tz \<and>
             map_of d ''current_timezone'' = Some (zone_or_UTC tz)) \<and>
         (\<exists>fm markers freqs. globals ''freq_markers'' = Some fm \<and> py_iter fm = Inr markers \<and>
             map marker_freq markers = map Inr freqs \<and>
             map_of d ''freq_markers'' = Some (PList freqs))"
proof -
  from save_project_True[OF saved] obtain d bytes where
    d: "make_state_dict globals = Inr d" and b: "dumps (PDict d) = Inr bytes" and
    w': "w' = w\<lparr>files := (files w)(filepath \<mapsto> bytes),
                  logging := logging w @ [Info [Lit ''Project saved to '', Lit filepath]]\<rparr>"
    by blast
  from pk b have "loads bytes = Inr (PDict d)" by (simp add: pickle_contract_def)
  then have "\<exists>w''. load_project loads filepath w' = (Inr (Some (PDict d)), w'')"
    by (simp add: load_project_def load_try_def w')
  with make_state_dict_entries[OF d] show ?thesis by blast
qed


lemma plain_pickle_contract: "pickle_contract plain_dumps plain_loads"
  by (auto simp: pickle_contract_def plain_dumps_def)

lemma example_module_lookups:
  "example_module ''file_paths'' = Some (PList [PStr ''a.txt'', PStr ''b.txt''])"
  "example_module ''time_zoom_start'' = Some (PInt 10)"
  "example_module ''time_zoom_end'' = Some (PInt 250)"
  "example_module ''current_timezone'' = Some (PTimezone ''Europe/Oslo'')"
  "example_module ''freq_markers'' =
     Some (PList [PTuple [PObject ''vline'', PObject ''text'', PInt 0, PFloat 440, PObject ''hline''],
                  empty_marker 1])"
  "example_module ''fft_ymin'' = Some (PInt 10)"
  "example_module ''fft_ymax'' = Some (PInt 90)"
  "example_module ''visible_files'' = Some (PInt 20)"
  "example_module ''file_scroll_position'' = Some (PInt 0)"
  "example_module ''scroll_position'' = Some (PInt 0)"
  by code_simp+

lemma example_state_dict: "make_state_dict example_module = Inr
  [(''file_paths'', PList [PStr ''a.txt'', PStr ''b.txt'']),
   (''time_zoom'', PTuple [PInt 10, PInt 250]),
   (''gain'', PTuple [PInt 0, PInt 1]),
   (''current_timezone'', PStr ''Europe/Oslo''),
   (''click_index'', PInt 42),
   (''freq_markers'', PList [PFloat 440, PNone])]"
  by code_simp

lemma example_save:
  "save_project plain_dumps Empty_file example_module ''survey.proj'' example_world =
     (Inr True, example_world\<lparr>files := (files example_world)(''survey.proj'' \<mapsto> Pickle_of (PDict
         [(''file_paths'', PList [PStr ''a.txt'', PStr ''b.txt'']),
          (''time_zoom'', PTuple [PInt 10, PInt 250]),
          (''gain'', PTuple [PInt 0, PInt 1]),
          (''current_timezone'', PStr ''Europe/Oslo''),
          (''click_index'', PInt 42),
          (''freq_markers'', PList [PFloat 440, PNone])])),
       logging := [Info [Lit ''Project saved to '', Lit ''survey.proj'']]\<rparr>)"
  by (simp add: save_project_def save_try_def example_state_dict plain_dumps_def
      example_world_def)


theorem save_load_round_trip_witness:
  "pickle_contract plain_dumps plain_loads \<and>
   fst (save_project plain_dumps Empty_file example_module ''survey.proj'' example_world) = Inr True \<and>
   (\<exists>d w''. load_project plain_loads ''survey.proj''
        (snd (save_project plain_dumps Empty_file example_module ''survey.proj'' example_world))
        = (Inr (Some (PDict d)), w'') \<and>
      map_of d ''file_paths'' = Some (PList [PStr ''a.txt'', PStr ''b.txt'']) \<and>
      map_of d ''time_zoom'' = Some (PTuple [PInt 10, PInt 250]) \<and>
      map_of d ''current_timezone'' = Some (PStr ''Europe/Oslo'') \<and>
      map_of d ''freq_markers'' = Some (PList [PFloat 440, PNone]))"
proof -
  let ?w' = "snd (save_project plain_dumps Empty_file example_module ''survey.proj'' example_world)"
  have saved: "save_project plain_dumps Empty_file example_module ''survey.proj'' example_world = (Inr True, ?w')"
    by (simp add: example_save)
  from save_load_round_trip[OF plain_pickle_contract saved]
  obtain d w'' where l: "load_project plain_loads ''survey.proj'' ?w' = (Inr (Some (PDict d)), w'')"
    and fp: "map_of d ''file_paths'' = Some (PList [PStr ''a.txt'', PStr ''b.txt''])"
    and tz: "map_of d ''time_zoom'' = Some (PTuple [PInt 10, PInt 250])"
    and cz: "map_of d ''current_timezone'' = Some (PStr ''Europe/Oslo'')"
    and fm: "\<exists>markers freqs.
       py_iter (PList [PTuple [PObject ''vline'', PObject ''text'', PInt 0, PFloat 440, PObject ''hline''],
                  empty_marker 1]) = Inr markers \<and>
       map marker_freq markers = map Inr freqs \<and> map_of d ''freq_markers'' = Some (PList freqs)"
    by (auto simp: example_module_lookups)
  from fm have "map_of d ''freq_markers'' = Some (PList [PFloat 440, PNone])"
    by (auto simp: marker_freq_def empty_marker_def map_eq_Cons_conv)
  moreover have "fst (save_project plain_dumps Empty_file example_module ''survey.proj'' example_world) = Inr True"
    by (simp add: example_save)
  ultimately show ?thesis using l fp tz cz plain_pickle_contract by blast
qed












section \<open>\<^verbatim>\<open>reset_state\<close> (C8)\<close>

lemma fold_assign_undeclared:
  "x \<notin> set D \<Longrightarrow> fst (fold (assign D) body (g, l)) x = g x"
  by (induction body arbitrary: g l) (auto simp: assign_def)

lemma fold_assign_unassigned:
  "x \<notin> fst ` set body \<Longrightarrow> fst (fold (assign D) body (g, l)) x = g x"
proof (induction body arbitrary: g l)
  case Nil
  then show ?case by simp
next
  case (Cons b body)
  obtain n u where b: "b = (n, u)" by (cases b)
  with Cons.prems have "n \<noteq> x" "x \<notin> fst ` set body" by auto
  with Cons.IH b show ?case by (simp add: assign_def)
qed

lemma fold_assign_declared:
  "x \<in> set D \<Longrightarrow> distinct (map fst body) \<Longrightarrow> (x, v) \<in> set body \<Longrightarrow>
     fst (fold (assign D) body (g, l)) x = Some v"
proof (induction body arbitrary: g l)
  case Nil
  then show ?case by simp
next
  case (Cons a body)
  obtain n u where a: "a = (n, u)" by (cases a)
  show ?case
  proof (cases "n = x")
    case True
    with Cons.prems a have uv: "u = v" and nx: "x \<notin> fst ` set body"
      by (auto intro: rev_image_eqI)
    have "fold (assign D) (a # body) (g, l) = fold (assign D) body (g(x \<mapsto> v), l)"
      using Cons.prems(1) True a uv by (simp add: assign_def)
    then show ?thesis using fold_assign_unassigned[OF nx] by simp
  next
    case False
    with Cons a show ?thesis by (auto simp: assign_def)
  qed
qed

lemma reset_state_undeclared: "x \<notin> set reset_state_globals \<Longrightarrow> reset_state g x = g x"
  by (simp add: reset_state_def fold_assign_undeclared)

lemma reset_state_body_distinct: "distinct (map fst reset_state_body)"
  by code_simp

lemma reset_state_declared:
  "x \<in> set reset_state_globals \<Longrightarrow> (x, v) \<in> set reset_state_body \<Longrightarrow> reset_state g x = Some v"
  by (simp add: reset_state_def fold_assign_declared reset_state_body_distinct)

lemma undeclared_names:
  "''current_timezone'' \<notin> set reset_state_globals"
  "''fft_ymin'' \<notin> set reset_state_globals"
  "''fft_ymax'' \<notin> set reset_state_globals"
  "''freq_markers'' \<notin> set reset_state_globals"
  "''file_scroll_position'' \<notin> set reset_state_globals"
  "''visible_files'' \<notin> set reset_state_globals"
  "''scroll_position'' \<notin> set reset_state_globals"
  by code_simp+

lemma reset_state_leaves_undeclared:
  "reset_state globals ''current_timezone'' = globals ''current_timezone'' \<and>
   reset_state globals ''fft_ymin'' = globals ''fft_ymin'' \<and>
   reset_state globals ''fft_ymax'' = globals ''fft_ymax'' \<and>
   reset_state globals ''freq_markers'' = globals ''freq_markers'' \<and>
   reset_state globals ''file_scroll_position'' = globals ''file_scroll_position'' \<and>
   reset_state globals ''visible_files'' = globals ''visible_files'' \<and>
   reset_state globals ''scroll_position'' = globals ''scroll_position''"
  by (simp add: reset_state_undeclared undeclared_names)

text \<open>
  C8 fails on the code.  \<^verbatim>\<open>reset_state\<close> assigns \<open>current_timezone\<close>, \<open>fft_ymin\<close>,
  \<open>fft_ymax\<close>, \<open>freq_markers\<close>, \<open>file_scroll_position\<close>, \<open>visible_files\<close> and
  \<open>scroll_position\<close> without declaring them \<^verbatim>\<open>global\<close>, so the assignments bind locals
  and the module keeps its values: from a module with \<open>fft_ymin = 10\<close> (the initial value
  is \<open>0\<close>), \<open>fft_ymax = 90\<close>, the timezone Europe/Oslo, twenty visible files and a marker
  at 440 Hz, all of these survive \<^verbatim>\<open>reset_state\<close>, while the declared variables
  (\<open>file_paths\<close>, \<open>time_zoom_start\<close>, \<open>spec_click_line\<close>) are reset.
\<close>

theorem reset_state_keeps_fft_range:
  "example_module ''fft_ymin'' = Some (PInt 10) \<and>
   reset_state example_module ''fft_ymin'' = Some (PInt 10) \<and>
   initial_module ''fft_ymin'' = Some (PInt 0) \<and>
   reset_state example_module ''fft_ymax'' = Some (PInt 90) \<and>
   reset_state example_module ''current_timezone'' = Some (PTimezone ''Europe/Oslo'') \<and>
   reset_state example_module ''visible_files'' = Some (PInt 20) \<and>
   reset_state example_module ''freq_markers'' = example_module ''freq_markers'' \<and>
   reset_state example_module ''freq_markers'' \<noteq> initial_module ''freq_markers'' \<and>
   reset_state example_module ''file_paths'' = Some (PList []) \<and>
   reset_state example_module ''time_zoom_start'' = Some (PInt 0) \<and>
   reset_state example_module ''spec_click_line'' = Some PNone"
proof -
  have declared: "reset_state example_module ''file_paths'' = Some (PList [])"
    "reset_state example_module ''time_zoom_start'' = Some (PInt 0)"
    "reset_state example_module ''spec_click_line'' = Some PNone"
    by code_simp+
  have init: "initial_module ''fft_ymin'' = Some (PInt 0)"
    "initial_module ''freq_markers'' = Some (PList [empty_marker 0, empty_marker 1])"
    by code_simp+
  show ?thesis
    by (simp add: reset_state_undeclared undeclared_names example_module_lookups declared init
        empty_marker_def)
qed

end
